theory Spec2Isabelle
  imports Main "HOL-Library.Sublist"
begin

section \<open>JavaScript values\<close>

text \<open>
  The filter helper of \<^verbatim>\<open>public/scripts/filters.js\<close> works on untyped data
  (\<^verbatim>\<open>@param {any[]} data\<close>), so entries, criteria values and the results of the
  imported search functions are modelled as JavaScript values. The model covers the
  values that JSON can carry plus \<^verbatim>\<open>undefined\<close> and \<^verbatim>\<open>NaN\<close>:
  \<^item> numbers are the integer-valued ones (identifiers), as unbounded \<open>int\<close>; fractions,
    infinities and the loss of precision beyond \<open>2^53\<close> are outside the model;
  \<^item> strings are lists of ASCII characters;
  \<^item> an object is the list of its own properties in property order (keys are meant
    to be distinct); functions and symbols are not values of the model, and an object
    that has an own property named \<^verbatim>\<open>toString\<close> or \<^verbatim>\<open>valueOf\<close> is outside it;
  \<^item> the entries and criteria values are read at fixed property names, none of which
    is inherited from \<^verbatim>\<open>Object.prototype\<close>; the criteria store is read and written at
    a name the caller chooses, so the store is modelled with its prototype chain (see
    \<open>read_filterData\<close> and \<open>assign_filterData\<close>);
  \<^item> arrays and objects are compared by structure where the code compares them by
    \<^verbatim>\<open>SameValueZero\<close> or \<^verbatim>\<open>===\<close>; on numbers, strings, booleans, \<^verbatim>\<open>null\<close> and
    \<^verbatim>\<open>undefined\<close> the two agree (\<^verbatim>\<open>includes\<close> finds \<^verbatim>\<open>NaN\<close>).
\<close>

datatype jsval =
    JUndefined
  | JNull
  | JBool bool
  | JNum int
  | JNaN
  | JStr string
  | JArr "jsval list"
  | JObj "(string \<times> jsval) list"

text \<open>The only exception the code can raise is the \<^verbatim>\<open>TypeError\<close> of reading a
  property of \<^verbatim>\<open>undefined\<close> or \<^verbatim>\<open>null\<close>, or of calling something that is not a
  function. There is no \<^verbatim>\<open>throw\<close> statement in the file.\<close>

datatype error = TypeError

text \<open>Sequencing of computations that may throw.\<close>

definition thenE :: "error + 'a \<Rightarrow> ('a \<Rightarrow> error + 'b) \<Rightarrow> error + 'b" where
  "thenE m f = (case m of Inl e \<Rightarrow> Inl e | Inr x \<Rightarrow> f x)"

definition nullish :: "jsval \<Rightarrow> bool" where
  "nullish v = (v = JUndefined \<or> v = JNull)"

text \<open>\<^verbatim>\<open>ToBoolean\<close>: what \<^verbatim>\<open>!x\<close>, \<^verbatim>\<open>x || y\<close> and the callback of
  \<^verbatim>\<open>Array.prototype.filter\<close> look at.\<close>

fun truthy :: "jsval \<Rightarrow> bool" where
  "truthy JUndefined = False"
| "truthy JNull = False"
| "truthy (JBool b) = b"
| "truthy (JNum n) = (n \<noteq> 0)"
| "truthy JNaN = False"
| "truthy (JStr s) = (s \<noteq> [])"
| "truthy (JArr xs) = True"
| "truthy (JObj kvs) = True"

text \<open>Decimal digits of a natural number, most significant first.\<close>

fun digits :: "nat \<Rightarrow> string" where
  "digits n = (if n < 10 then [''0123456789'' ! n]
               else digits (n div 10) @ [''0123456789'' ! (n mod 10)])"

declare digits.simps [simp del]

definition show_int :: "int \<Rightarrow> string" where
  "show_int i = (if i < 0 then CHR ''-'' # digits (nat (- i)) else digits (nat i))"

text \<open>\<^verbatim>\<open>Array.prototype.join\<close> on strings.\<close>

fun join :: "string \<Rightarrow> string list \<Rightarrow> string" where
  "join sep [] = []"
| "join sep [s] = s"
| "join sep (s # t # ts) = s @ sep @ join sep (t # ts)"

text \<open>\<^verbatim>\<open>String(v)\<close>, which is also the conversion of a value used as a property key.
  An array is joined with commas, its \<^verbatim>\<open>null\<close> and \<^verbatim>\<open>undefined\<close> elements as the
  empty string.\<close>

fun ToString :: "jsval \<Rightarrow> string" where
  "ToString JUndefined = ''undefined''"
| "ToString JNull = ''null''"
| "ToString (JBool b) = (if b then ''true'' else ''false'')"
| "ToString (JNum n) = show_int n"
| "ToString JNaN = ''NaN''"
| "ToString (JStr s) = s"
| "ToString (JArr xs) =
     join '','' (map (\<lambda>x. if x = JUndefined \<or> x = JNull then [] else ToString x) xs)"
| "ToString (JObj kvs) = ''[object Object]''"

text \<open>Reading a property \<^verbatim>\<open>v.k\<close>. Of the property names this file reads
  (\<^verbatim>\<open>type\<close>, \<^verbatim>\<open>id\<close>, \<^verbatim>\<open>uid\<close>, \<^verbatim>\<open>item\<close>, \<^verbatim>\<open>name\<close>, \<^verbatim>\<open>fav\<close>, \<^verbatim>\<open>avatar\<close>,
  \<^verbatim>\<open>characters\<close>, \<^verbatim>\<open>selected\<close>, \<^verbatim>\<open>excluded\<close>, \<^verbatim>\<open>length\<close>) only \<^verbatim>\<open>length\<close>
  exists on a string or an array; every other one is \<^verbatim>\<open>undefined\<close> on a primitive
  or an array.\<close>

fun getProp :: "jsval \<Rightarrow> string \<Rightarrow> error + jsval" where
  "getProp JUndefined k = Inl TypeError"
| "getProp JNull k = Inl TypeError"
| "getProp (JObj kvs) k = Inr (case map_of kvs k of Some v \<Rightarrow> v | None \<Rightarrow> JUndefined)"
| "getProp (JArr xs) k = Inr (if k = ''length'' then JNum (int (length xs)) else JUndefined)"
| "getProp (JStr s) k = Inr (if k = ''length'' then JNum (int (length s)) else JUndefined)"
| "getProp (JBool b) k = Inr JUndefined"
| "getProp (JNum n) k = Inr JUndefined"
| "getProp JNaN k = Inr JUndefined"

text \<open>\<^verbatim>\<open>Array.prototype.includes\<close>: membership by \<^verbatim>\<open>SameValueZero\<close>.\<close>

definition includes_arr :: "jsval list \<Rightarrow> jsval \<Rightarrow> bool" where
  "includes_arr xs v = (v \<in> set xs)"

text \<open>\<^verbatim>\<open>String.prototype.includes\<close>: the argument occurs as a contiguous substring.\<close>

fun includes_str :: "string \<Rightarrow> string \<Rightarrow> bool" where
  "includes_str [] p = (p = [])"
| "includes_str (c # cs) p = (take (length p) (c # cs) = p \<or> includes_str cs p)"

text \<open>\<^verbatim>\<open>String.prototype.toLowerCase\<close> and \<^verbatim>\<open>String.prototype.trim\<close> on ASCII
  strings.\<close>

definition lower_char :: "char \<Rightarrow> char" where
  "lower_char c =
     (case map_of (zip ''ABCDEFGHIJKLMNOPQRSTUVWXYZ'' ''abcdefghijklmnopqrstuvwxyz'') c of
        Some d \<Rightarrow> d | None \<Rightarrow> c)"

definition toLowerCase :: "string \<Rightarrow> string" where
  "toLowerCase s = map lower_char s"

definition is_space :: "char \<Rightarrow> bool" where
  "is_space c = (c \<in> set [CHR 0x20, CHR 0x09, CHR 0x0A, CHR 0x0B, CHR 0x0C, CHR 0x0D])"

definition trim :: "string \<Rightarrow> string" where
  "trim s = rev (dropWhile is_space (rev (dropWhile is_space s)))"

text \<open>\<^verbatim>\<open>parseInt(v)\<close> with no radix: the argument is converted to a string, leading
  white space and one sign are skipped, a \<^verbatim>\<open>0x\<close> prefix selects base 16, and the
  longest run of digits is read; with no digit the result is \<^verbatim>\<open>NaN\<close>.\<close>

definition digit_val :: "char \<Rightarrow> nat option" where
  "digit_val c =
     map_of (zip ''0123456789abcdefABCDEF''
        [0, 1, 2, 3, 4, 5, 6, 7, 8, 9, 10, 11, 12, 13, 14, 15, 10, 11, 12, 13, 14, 15]) c"

definition is_digit :: "nat \<Rightarrow> char \<Rightarrow> bool" where
  "is_digit radix c = (case digit_val c of Some d \<Rightarrow> d < radix | None \<Rightarrow> False)"

definition digits_value :: "nat \<Rightarrow> string \<Rightarrow> nat" where
  "digits_value radix ds =
     foldl (\<lambda>acc c. acc * radix + (case digit_val c of Some d \<Rightarrow> d | None \<Rightarrow> 0)) 0 ds"

definition parseInt :: "jsval \<Rightarrow> jsval" where
  "parseInt v =
     (let s = dropWhile is_space (ToString v);
          neg = (take 1 s = ''-'');
          s1 = (if take 1 s = ''-'' \<or> take 1 s = ''+'' then drop 1 s else s);
          hex = (take 2 s1 = ''0x'' \<or> take 2 s1 = ''0X'');
          radix = (if hex then 16 else 10);
          s2 = (if hex then drop 2 s1 else s1);
          ds = takeWhile (is_digit radix) s2
      in if ds = [] then JNaN
         else JNum (if neg then - int (digits_value radix ds) else int (digits_value radix ds)))"

text \<open>\<^verbatim>\<open>JSON.stringify(v)\<close>. The result is \<^verbatim>\<open>undefined\<close> (here \<open>None\<close>) for
  \<^verbatim>\<open>undefined\<close>; inside an array \<^verbatim>\<open>undefined\<close> is written \<^verbatim>\<open>null\<close>, inside an
  object a property whose value is \<^verbatim>\<open>undefined\<close> is left out; \<^verbatim>\<open>NaN\<close> is written
  \<^verbatim>\<open>null\<close>. Properties are written in property order.\<close>

definition hex4 :: "nat \<Rightarrow> string" where
  "hex4 n = [CHR ''0'', CHR ''0'', ''0123456789abcdef'' ! (n div 16), ''0123456789abcdef'' ! (n mod 16)]"

definition json_escape :: "char \<Rightarrow> string" where
  "json_escape c =
     (if c = CHR 0x22 then [CHR 0x5C, CHR 0x22]
      else if c = CHR 0x5C then [CHR 0x5C, CHR 0x5C]
      else if c = CHR 0x08 then [CHR 0x5C, CHR ''b'']
      else if c = CHR 0x0C then [CHR 0x5C, CHR ''f'']
      else if c = CHR 0x0A then [CHR 0x5C, CHR ''n'']
      else if c = CHR 0x0D then [CHR 0x5C, CHR ''r'']
      else if c = CHR 0x09 then [CHR 0x5C, CHR ''t'']
      else if (of_char c :: nat) < 32 then [CHR 0x5C, CHR ''u''] @ hex4 (of_char c)
      else [c])"

definition json_quote :: "string \<Rightarrow> string" where
  "json_quote s = [CHR 0x22] @ concat (map json_escape s) @ [CHR 0x22]"

fun JSON_stringify :: "jsval \<Rightarrow> string option" where
  "JSON_stringify JUndefined = None"
| "JSON_stringify JNull = Some ''null''"
| "JSON_stringify (JBool b) = Some (if b then ''true'' else ''false'')"
| "JSON_stringify (JNum n) = Some (show_int n)"
| "JSON_stringify JNaN = Some ''null''"
| "JSON_stringify (JStr s) = Some (json_quote s)"
| "JSON_stringify (JArr xs) =
     Some (''['' @ join '',''
        (map (\<lambda>x. case JSON_stringify x of None \<Rightarrow> ''null'' | Some t \<Rightarrow> t) xs) @ '']'')"
| "JSON_stringify (JObj kvs) =
     Some (''{'' @ join '',''
        (concat (map (\<lambda>kv. case JSON_stringify (snd kv) of
                              None \<Rightarrow> []
                            | Some t \<Rightarrow> [json_quote (fst kv) @ '':'' @ t]) kvs)) @ ''}'')"

section \<open>Array methods with callbacks that may throw\<close>

text \<open>\<^verbatim>\<open>xs.filter(p)\<close>: the callback runs on the elements from left to right; an
  exception of the callback ends the call.\<close>

fun js_filter :: "('a \<Rightarrow> error + bool) \<Rightarrow> 'a list \<Rightarrow> error + 'a list" where
  "js_filter p [] = Inr []"
| "js_filter p (x # xs) =
     thenE (p x) (\<lambda>b. thenE (js_filter p xs) (\<lambda>ys. Inr (if b then x # ys else ys)))"

text \<open>\<^verbatim>\<open>xs.map(f)\<close> on a list, and \<^verbatim>\<open>v.map(f)\<close> on a value: only an array has the
  method.\<close>

fun js_map :: "('a \<Rightarrow> error + 'b) \<Rightarrow> 'a list \<Rightarrow> error + 'b list" where
  "js_map f [] = Inr []"
| "js_map f (x # xs) = thenE (f x) (\<lambda>y. thenE (js_map f xs) (\<lambda>ys. Inr (y # ys)))"

definition call_map :: "jsval \<Rightarrow> (jsval \<Rightarrow> error + 'b) \<Rightarrow> error + 'b list" where
  "call_map v f = (case v of JArr xs \<Rightarrow> js_map f xs | _ \<Rightarrow> Inl TypeError)"

text \<open>\<^verbatim>\<open>xs.reduce(f, a)\<close>.\<close>

fun js_reduce :: "('b \<Rightarrow> 'a \<Rightarrow> error + 'b) \<Rightarrow> 'b \<Rightarrow> 'a list \<Rightarrow> error + 'b" where
  "js_reduce f a [] = Inr a"
| "js_reduce f a (x # xs) = thenE (f a x) (\<lambda>a'. js_reduce f a' xs)"

text \<open>\<^verbatim>\<open>a.concat(v)\<close>: an array argument is spread by one level, any other value is
  appended as one element.\<close>

definition js_concat :: "jsval list \<Rightarrow> jsval \<Rightarrow> jsval list" where
  "js_concat a v = (case v of JArr ys \<Rightarrow> a @ ys | _ \<Rightarrow> a @ [v])"

text \<open>\<^verbatim>\<open>[...new Set(xs)]\<close>: the first occurrence of every element, in order.\<close>

definition uniq :: "'a list \<Rightarrow> 'a list" where
  "uniq xs = rev (remdups (rev xs))"

text \<open>\<^verbatim>\<open>v.trim()\<close>: only a string has the method. The receiver here is truthy, so
  it is never \<^verbatim>\<open>undefined\<close> or \<^verbatim>\<open>null\<close>; on every other value the method is
  missing and the call throws.\<close>

definition call_trim :: "jsval \<Rightarrow> error + string" where
  "call_trim v = (case v of JStr s \<Rightarrow> Inr (trim s) | _ \<Rightarrow> Inl TypeError)"

text \<open>\<^verbatim>\<open>v == "true"\<close>: a string is compared as it is; a number or a boolean is
  compared with the number the string \<^verbatim>\<open>"true"\<close> converts to, which is \<^verbatim>\<open>NaN\<close>; an
  array or an object is converted to a string first.\<close>

fun loose_eq_true :: "jsval \<Rightarrow> bool" where
  "loose_eq_true (JStr s) = (s = ''true'')"
| "loose_eq_true (JArr xs) = (ToString (JArr xs) = ''true'')"
| "loose_eq_true (JObj kvs) = (ToString (JObj kvs) = ''true'')"
| "loose_eq_true v = False"

section \<open>The collaborators imported from other modules\<close>

text \<open>\<^verbatim>\<open>power_user.fuzzy_search\<close>, the three fuzzy search functions of
  \<^verbatim>\<open>power-user.js\<close> and \<^verbatim>\<open>tag_map\<close> of \<^verbatim>\<open>tags.js\<close> are not part of this file;
  they are parameters of the model. The search functions are taken to return arrays
  and not to throw.\<close>

record env =
  fuzzy_search :: bool
  fuzzySearchCharacters :: "string \<Rightarrow> jsval list"
  fuzzySearchGroups :: "string \<Rightarrow> jsval list"
  fuzzySearchWorldInfo :: "jsval list \<Rightarrow> jsval \<Rightarrow> jsval list"
  tag_map :: "string \<rightharpoonup> jsval"

section \<open>The filter helper\<close>

definition FILTER_TYPES_SEARCH :: string where
  "FILTER_TYPES_SEARCH = ''search''"

definition FILTER_TYPES_TAG :: string where
  "FILTER_TYPES_TAG = ''tag''"

definition FILTER_TYPES_FAV :: string where
  "FILTER_TYPES_FAV = ''fav''"

definition FILTER_TYPES_GROUP :: string where
  "FILTER_TYPES_GROUP = ''group''"

definition FILTER_TYPES_WORLD_INFO_SEARCH :: string where
  "FILTER_TYPES_WORLD_INFO_SEARCH = ''world_info_search''"

text \<open>The methods that \<^verbatim>\<open>filterFunctions\<close> binds to the helper.\<close>

datatype filterFn =
    SearchFilter
  | GroupFilter
  | FavFilter
  | TagFilter
  | WiSearchFilter
  | HideCharactersAlreadyInDeck

text \<open>The prototype of the object \<^verbatim>\<open>filterData\<close>. It is \<^verbatim>\<open>Object.prototype\<close> for the
  object literal of line 50, and changes only when the setter of \<^verbatim>\<open>__proto__\<close> runs:
  to \<^verbatim>\<open>null\<close>, or to an object or array that the caller passed.\<close>

datatype proto = ObjectPrototype | NullPrototype | ProtoIs jsval

text \<open>The result of reading the store at an arbitrary name: a value of the model, the
  object \<^verbatim>\<open>Object.prototype\<close> itself (what the getter of \<^verbatim>\<open>__proto__\<close> returns for
  the object literal), or the built-in function that \<^verbatim>\<open>Object.prototype\<close> or
  \<^verbatim>\<open>Array.prototype\<close> holds under that name.\<close>

datatype stored = Plain jsval | TheObjectPrototype | Builtin string

text \<open>The names of the data properties of \<^verbatim>\<open>Object.prototype\<close> (all of them
  functions; \<^verbatim>\<open>__proto__\<close> is its one accessor), and of the function-valued properties
  of \<^verbatim>\<open>Array.prototype\<close>, as of ECMAScript 2023 with Annex B.\<close>

definition Object_prototype_names :: "string list" where
  "Object_prototype_names =
     [''constructor'', ''__defineGetter__'', ''__defineSetter__'', ''hasOwnProperty'',
      ''__lookupGetter__'', ''__lookupSetter__'', ''isPrototypeOf'',
      ''propertyIsEnumerable'', ''toString'', ''valueOf'', ''toLocaleString'']"

definition Array_prototype_names :: "string list" where
  "Array_prototype_names =
     [''at'', ''concat'', ''constructor'', ''copyWithin'', ''entries'', ''every'', ''fill'',
      ''filter'', ''find'', ''findIndex'', ''findLast'', ''findLastIndex'', ''flat'',
      ''flatMap'', ''forEach'', ''includes'', ''indexOf'', ''join'', ''keys'',
      ''lastIndexOf'', ''map'', ''pop'', ''push'', ''reduce'', ''reduceRight'', ''reverse'',
      ''shift'', ''slice'', ''some'', ''sort'', ''splice'', ''toLocaleString'',
      ''toReversed'', ''toSorted'', ''toSpliced'', ''toString'', ''unshift'', ''values'',
      ''with'']"

text \<open>The own properties of a value that serves as prototype: the properties of an
  object; the indices and the length of an array.\<close>

definition own_prop :: "jsval \<Rightarrow> string \<Rightarrow> jsval option" where
  "own_prop p k =
     (case p of
        JObj kvs \<Rightarrow> map_of kvs k
      | JArr xs \<Rightarrow> (if k = ''length'' then Some (JNum (int (length xs)))
                   else map_of (zip (map digits [0..<length xs]) xs) k)
      | _ \<Rightarrow> None)"

text \<open>The state of a \<^verbatim>\<open>FilterHelper\<close>: its two object fields (for \<^verbatim>\<open>filterData\<close>
  the own properties and the prototype), and the number of times the callback
  \<^verbatim>\<open>onDataChanged\<close> has been called. The callback itself is the caller's; it is taken
  not to touch the helper and not to throw.\<close>

record FilterHelper =
  onDataChanged_calls :: nat
  filterFunctions :: "(string \<times> filterFn) list"
  filterData :: "string \<rightharpoonup> jsval"
  filterData_proto :: proto

definition new_FilterHelper :: FilterHelper where
  "new_FilterHelper =
     \<lparr> onDataChanged_calls = 0,
       filterFunctions =
         [(FILTER_TYPES_SEARCH, SearchFilter),
          (FILTER_TYPES_GROUP, GroupFilter),
          (FILTER_TYPES_FAV, FavFilter),
          (FILTER_TYPES_TAG, TagFilter),
          (FILTER_TYPES_WORLD_INFO_SEARCH, WiSearchFilter),
          (''hide_characters_present_in_deck'', HideCharactersAlreadyInDeck)],
       filterData =
         [FILTER_TYPES_SEARCH \<mapsto> JStr [],
          FILTER_TYPES_GROUP \<mapsto> JBool False,
          FILTER_TYPES_FAV \<mapsto> JBool False,
          FILTER_TYPES_TAG \<mapsto> JObj [(''excluded'', JArr []), (''selected'', JArr [])],
          FILTER_TYPES_WORLD_INFO_SEARCH \<mapsto> JStr []],
       filterData_proto = ObjectPrototype \<rparr>"

text \<open>What \<^verbatim>\<open>Object.prototype\<close> gives under the name \<open>k\<close> to an object whose
  prototype is \<open>pr\<close>: the getter of \<^verbatim>\<open>__proto__\<close> returns that prototype, the other
  names of \<^verbatim>\<open>Object.prototype\<close> give a built-in function, every other name gives
  \<^verbatim>\<open>undefined\<close>.\<close>

definition from_Object_prototype :: "proto \<Rightarrow> string \<Rightarrow> stored" where
  "from_Object_prototype pr k =
     (if k = ''__proto__'' then
        (case pr of
           ObjectPrototype \<Rightarrow> TheObjectPrototype
         | ProtoIs p \<Rightarrow> Plain p
         | NullPrototype \<Rightarrow> Plain JNull)
      else if k \<in> set Object_prototype_names then Builtin k
      else Plain JUndefined)"

text \<open>\<^verbatim>\<open>this.filterData[k]\<close>: an own property first, then the prototype chain. A
  prototype that the caller passed is a plain object or an array, whose own chain ends in
  \<^verbatim>\<open>Object.prototype\<close>; with the prototype \<^verbatim>\<open>null\<close> nothing is inherited.\<close>

definition read_filterData :: "FilterHelper \<Rightarrow> string \<Rightarrow> stored" where
  "read_filterData h k =
     (case filterData h k of
        Some v \<Rightarrow> Plain v
      | None \<Rightarrow>
          (case filterData_proto h of
             NullPrototype \<Rightarrow> Plain JUndefined
           | ObjectPrototype \<Rightarrow> from_Object_prototype ObjectPrototype k
           | ProtoIs p \<Rightarrow>
               (case own_prop p k of
                  Some v \<Rightarrow> Plain v
                | None \<Rightarrow>
                    (case p of
                       JArr xs \<Rightarrow>
                         (if k \<in> set Array_prototype_names then Builtin k
                          else from_Object_prototype (ProtoIs p) k)
                     | _ \<Rightarrow> from_Object_prototype (ProtoIs p) k))))"

text \<open>The stages read the store at the five names of \<^verbatim>\<open>FILTER_TYPES\<close>. None of them
  is a name of \<^verbatim>\<open>Object.prototype\<close> or \<^verbatim>\<open>Array.prototype\<close>, so such a read always
  gives a value of the model (lemma \<open>read_filterData_plain\<close>); \<open>filterData_at\<close> is
  that value.\<close>

definition filterData_at :: "FilterHelper \<Rightarrow> string \<Rightarrow> jsval" where
  "filterData_at h k = (case read_filterData h k of Plain v \<Rightarrow> v | _ \<Rightarrow> JUndefined)"

text \<open>\<^verbatim>\<open>this.filterData[k] = v\<close>. The assignment creates or overwrites an own
  property, except when it reaches the setter of \<^verbatim>\<open>__proto__\<close> on
  \<^verbatim>\<open>Object.prototype\<close>: the name is \<^verbatim>\<open>__proto__\<close> and neither the store nor a
  prototype that the caller passed has a property of that name. The setter makes an
  object, an array or \<^verbatim>\<open>null\<close> the new prototype and ignores every other value. Every
  other inherited property is a writable data property, which an assignment shadows
  (frozen and sealed objects are not values of the model).\<close>

definition reaches_proto_setter :: "FilterHelper \<Rightarrow> bool" where
  "reaches_proto_setter h =
     (filterData h ''__proto__'' = None \<and>
      (case filterData_proto h of
         NullPrototype \<Rightarrow> False
       | ObjectPrototype \<Rightarrow> True
       | ProtoIs p \<Rightarrow> own_prop p ''__proto__'' = None))"

definition assign_filterData :: "FilterHelper \<Rightarrow> string \<Rightarrow> jsval \<Rightarrow> FilterHelper" where
  "assign_filterData h k v =
     (if k = ''__proto__'' \<and> reaches_proto_setter h then
        (case v of
           JObj kvs \<Rightarrow> h\<lparr>filterData_proto := ProtoIs v\<rparr>
         | JArr xs \<Rightarrow> h\<lparr>filterData_proto := ProtoIs v\<rparr>
         | JNull \<Rightarrow> h\<lparr>filterData_proto := NullPrototype\<rparr>
         | _ \<Rightarrow> h)
      else h\<lparr>filterData := (filterData h)(k \<mapsto> v)\<rparr>)"

text \<open>\<^verbatim>\<open>JSON.stringify\<close> of what a read of the store gives: \<^verbatim>\<open>Object.prototype\<close> has
  no enumerable property, and a function is serialised as \<^verbatim>\<open>undefined\<close>.\<close>

definition JSON_stringify_stored :: "stored \<Rightarrow> string option" where
  "JSON_stringify_stored r =
     (case r of
        Plain v \<Rightarrow> JSON_stringify v
      | TheObjectPrototype \<Rightarrow> Some ''{}''
      | Builtin k \<Rightarrow> None)"

subsection \<open>hideCharactersAlreadyInDeck\<close>

definition hideCharactersAlreadyInDeck :: "jsval list \<Rightarrow> error + jsval list" where
  "hideCharactersAlreadyInDeck data =
     thenE (js_filter (\<lambda>item. thenE (getProp item ''type'') (\<lambda>t. Inr (JStr ''deck'' = t))) data)
       (\<lambda>decks.
     thenE (js_reduce (\<lambda>a b. thenE (getProp b ''item'') (\<lambda>i.
                              thenE (getProp i ''characters'') (\<lambda>c. Inr (js_concat a c))))
              [] decks)
       (\<lambda>members.
     let characterIds = uniq members in
     js_filter (\<lambda>item. thenE (getProp item ''id'') (\<lambda>i.
                  Inr (False = includes_arr characterIds (JStr (ToString i))))) data))"

subsection \<open>wiSearchFilter\<close>

definition wiSearchFilter :: "env \<Rightarrow> FilterHelper \<Rightarrow> jsval list \<Rightarrow> error + jsval list" where
  "wiSearchFilter ev h data =
     (let needle = filterData_at h FILTER_TYPES_WORLD_INFO_SEARCH in
      if \<not> truthy needle then Inr data
      else
        let fuzzySearchResults = fuzzySearchWorldInfo ev data needle in
        js_filter (\<lambda>entity. thenE (getProp entity ''uid'') (\<lambda>u.
                     Inr (includes_arr fuzzySearchResults u))) data)"

subsection \<open>tagFilter\<close>

definition TAG_LOGIC_AND :: bool where
  "TAG_LOGIC_AND = True"

definition isElementTagged :: "env \<Rightarrow> jsval \<Rightarrow> jsval \<Rightarrow> error + bool" where
  "isElementTagged ev entity tagId =
     thenE (getProp entity ''type'') (\<lambda>t.
       let isCharacter = (t = JStr ''character'') in
       thenE (if isCharacter then thenE (getProp entity ''item'') (\<lambda>i. getProp i ''avatar'')
              else thenE (getProp entity ''id'') (\<lambda>i. Inr (JStr (ToString i))))
         (\<lambda>lookupValue.
            Inr (case tag_map ev (ToString lookupValue) of
                   Some (JArr ts) \<Rightarrow> includes_arr ts tagId
                 | _ \<Rightarrow> False)))"

definition getIsTagged :: "env \<Rightarrow> jsval \<Rightarrow> jsval \<Rightarrow> jsval \<Rightarrow> error + bool" where
  "getIsTagged ev selected excluded entity =
     thenE (call_map selected (isElementTagged ev entity)) (\<lambda>tagFlags.
       let trueFlags = filter (\<lambda>x. x) tagFlags;
           isTagged = (if TAG_LOGIC_AND then length tagFlags = length trueFlags
                       else length trueFlags > 0) in
       thenE (call_map excluded (isElementTagged ev entity)) (\<lambda>excludedTagFlags.
         let isExcluded = (True \<in> set excludedTagFlags) in
         if isExcluded then Inr False
         else if (case selected of JArr xs \<Rightarrow> length xs > 0 | _ \<Rightarrow> False) \<and> \<not> isTagged
           then Inr False
         else Inr True))"

definition tagFilter :: "env \<Rightarrow> FilterHelper \<Rightarrow> jsval list \<Rightarrow> error + jsval list" where
  "tagFilter ev h data =
     (let c = filterData_at h FILTER_TYPES_TAG in
      thenE (getProp c ''selected'') (\<lambda>selected.
      thenE (getProp c ''excluded'') (\<lambda>excluded.
      thenE (getProp selected ''length'') (\<lambda>sl.
      thenE (if \<not> truthy sl then thenE (getProp excluded ''length'') (\<lambda>el. Inr (\<not> truthy el))
             else Inr False) (\<lambda>nothing_chosen.
        if nothing_chosen then Inr data
        else js_filter (getIsTagged ev selected excluded) data)))))"

subsection \<open>favFilter and groupFilter\<close>

definition favFilter :: "FilterHelper \<Rightarrow> jsval list \<Rightarrow> error + jsval list" where
  "favFilter h data =
     (if \<not> truthy (filterData_at h FILTER_TYPES_FAV) then Inr data
      else js_filter (\<lambda>entity. thenE (getProp entity ''item'') (\<lambda>i.
                        thenE (getProp i ''fav'') (\<lambda>f.
                          Inr (truthy (if truthy f then f else JBool (loose_eq_true f)))))) data)"

definition groupFilter :: "FilterHelper \<Rightarrow> jsval list \<Rightarrow> error + jsval list" where
  "groupFilter h data =
     (if \<not> truthy (filterData_at h FILTER_TYPES_GROUP) then Inr data
      else js_filter (\<lambda>entity. thenE (getProp entity ''type'') (\<lambda>t. Inr (t = JStr ''group''))) data)"

subsection \<open>searchFilter\<close>

definition getIsValidSearch ::
  "env \<Rightarrow> string \<Rightarrow> jsval list \<Rightarrow> jsval list \<Rightarrow> jsval \<Rightarrow> error + bool" where
  "getIsValidSearch ev searchValue fuzzySearchCharactersResults fuzzySearchGroupsResults entity =
     thenE (getProp entity ''type'') (\<lambda>t.
       let isGroup = (t = JStr ''group'');
           isCharacter = (t = JStr ''character'') in
       if fuzzy_search ev then
         (if isCharacter then
            thenE (getProp entity ''id'') (\<lambda>i.
              Inr (includes_arr fuzzySearchCharactersResults (parseInt i)))
          else if isGroup then
            thenE (getProp entity ''id'') (\<lambda>i.
              Inr (includes_arr fuzzySearchGroupsResults (JStr (ToString i))))
          else Inr False)
       else
         thenE (getProp entity ''item'') (\<lambda>item.
           if nullish item then Inr False
           else thenE (getProp item ''name'') (\<lambda>name.
             if nullish name then Inr False
             else (case name of
                     JStr s \<Rightarrow> Inr (includes_str (toLowerCase s) searchValue)
                   | _ \<Rightarrow> Inl TypeError))))"

definition searchFilter :: "env \<Rightarrow> FilterHelper \<Rightarrow> jsval list \<Rightarrow> error + jsval list" where
  "searchFilter ev h data =
     (if \<not> truthy (filterData_at h FILTER_TYPES_SEARCH) then Inr data
      else
        thenE (call_trim (filterData_at h FILTER_TYPES_SEARCH)) (\<lambda>trimmed.
          let searchValue = toLowerCase trimmed;
              fuzzySearchCharactersResults =
                (if fuzzy_search ev then fuzzySearchCharacters ev searchValue else []);
              fuzzySearchGroupsResults =
                (if fuzzy_search ev then fuzzySearchGroups ev searchValue else [])
          in js_filter (getIsValidSearch ev searchValue fuzzySearchCharactersResults
                          fuzzySearchGroupsResults) data))"

subsection \<open>setFilterData, getFilterData and applyFilters\<close>

definition setFilterData :: "FilterHelper \<Rightarrow> string \<Rightarrow> jsval \<Rightarrow> bool \<Rightarrow> FilterHelper" where
  "setFilterData h filterType data suppressDataChanged =
     (let oldData = read_filterData h filterType;
          h' = assign_filterData h filterType data
      in if JSON_stringify_stored oldData \<noteq> JSON_stringify data \<and> \<not> suppressDataChanged
         then h'\<lparr>onDataChanged_calls := Suc (onDataChanged_calls h')\<rparr>
         else h')"

text \<open>\<^verbatim>\<open>getFilterData\<close> is a single property read of an object that always exists:
  no path of it throws, so its result is always an \<open>Inr\<close>.\<close>

definition getFilterData :: "FilterHelper \<Rightarrow> string \<Rightarrow> error + stored" where
  "getFilterData h filterType = Inr (read_filterData h filterType)"

fun run_filterFn :: "env \<Rightarrow> FilterHelper \<Rightarrow> filterFn \<Rightarrow> jsval list \<Rightarrow> error + jsval list" where
  "run_filterFn ev h SearchFilter data = searchFilter ev h data"
| "run_filterFn ev h GroupFilter data = groupFilter h data"
| "run_filterFn ev h FavFilter data = favFilter h data"
| "run_filterFn ev h TagFilter data = tagFilter ev h data"
| "run_filterFn ev h WiSearchFilter data = wiSearchFilter ev h data"
| "run_filterFn ev h HideCharactersAlreadyInDeck data = hideCharactersAlreadyInDeck data"

text \<open>\<^verbatim>\<open>Object.values(this.filterFunctions)\<close> lists the bound methods in the order in
  which the keys were written.\<close>

definition applyFilters :: "env \<Rightarrow> FilterHelper \<Rightarrow> jsval list \<Rightarrow> error + jsval list" where
  "applyFilters ev h data =
     js_reduce (\<lambda>data fn. run_filterFn ev h fn data) data (map snd (filterFunctions h))"

section \<open>Reading the model\<close>

text \<open>Total readers, used to state what the code computes. \<open>propOf v k\<close> is the value
  of \<^verbatim>\<open>v.k\<close> where that read does not throw.\<close>

definition propOf :: "jsval \<Rightarrow> string \<Rightarrow> jsval" where
  "propOf v k = (case getProp v k of Inr x \<Rightarrow> x | Inl e \<Rightarrow> JUndefined)"

text \<open>Deck entries, and the member identifiers they list, as the reduce of
  \<^verbatim>\<open>hideCharactersAlreadyInDeck\<close> collects them: as stored, not converted.\<close>

definition is_deck :: "jsval \<Rightarrow> bool" where
  "is_deck e = (propOf e ''type'' = JStr ''deck'')"

definition deck_characters :: "jsval \<Rightarrow> jsval list" where
  "deck_characters d = js_concat [] (propOf (propOf d ''item'') ''characters'')"

definition deck_members :: "jsval list \<Rightarrow> jsval list" where
  "deck_members data = concat (map deck_characters (filter is_deck data))"

text \<open>The reading of the specification: the member identifiers, each converted to a
  string.\<close>

definition stringified_deck_members :: "jsval list \<Rightarrow> jsval list" where
  "stringified_deck_members data = map (\<lambda>m. JStr (ToString m)) (deck_members data)"

text \<open>The entries on which \<^verbatim>\<open>hideCharactersAlreadyInDeck\<close> does not throw: no entry
  is \<^verbatim>\<open>null\<close> or \<^verbatim>\<open>undefined\<close>, and every deck has a payload.\<close>

definition deck_ready :: "jsval list \<Rightarrow> bool" where
  "deck_ready data =
     list_all (\<lambda>e. \<not> nullish e \<and> (is_deck e \<longrightarrow> \<not> nullish (propOf e ''item''))) data"

text \<open>Deep structural equality of two values, as the specification of
  \<^verbatim>\<open>setCriteria\<close> words it: arrays are equal element by element, objects are equal
  when they have the same keys with equal values, whatever the order the keys were
  written in.\<close>

fun deep_equal :: "jsval \<Rightarrow> jsval \<Rightarrow> bool" where
  "deep_equal (JArr xs) (JArr ys) = list_all2 deep_equal xs ys"
| "deep_equal (JObj kvs) (JObj kws) =
     (set (map fst kvs) = set (map fst kws) \<and>
      list_all (\<lambda>kv. case map_of kws (fst kv) of
                        Some w \<Rightarrow> deep_equal (snd kv) w
                      | None \<Rightarrow> False) kvs)"
| "deep_equal a b = (a = b)"

subsection \<open>Sample data\<close>

definition sample_deck :: jsval where
  "sample_deck =
     JObj [(''type'', JStr ''deck''), (''id'', JStr ''d1''),
           (''item'', JObj [(''characters'', JArr [JStr ''1''])])]"

definition numeric_deck :: jsval where
  "numeric_deck =
     JObj [(''type'', JStr ''deck''), (''id'', JStr ''d2''),
           (''item'', JObj [(''characters'', JArr [JNum 1])])]"

definition alice :: jsval where
  "alice =
     JObj [(''type'', JStr ''character''), (''id'', JNum 1),
           (''item'', JObj [(''name'', JStr ''Alice''), (''fav'', JBool True)])]"

definition bob :: jsval where
  "bob =
     JObj [(''type'', JStr ''character''), (''id'', JNum 2),
           (''item'', JObj [(''name'', JStr ''Bob''), (''fav'', JBool False)])]"

definition alices_group :: jsval where
  "alices_group =
     JObj [(''type'', JStr ''group''), (''id'', JStr ''g1''),
           (''item'', JObj [(''name'', JStr ''Alice's Group'')])]"

text \<open>The default tag criteria with the two keys written in the other order.\<close>

definition tag_criteria_reordered :: jsval where
  "tag_criteria_reordered = JObj [(''selected'', JArr []), (''excluded'', JArr [])]"

text \<open>Entries without a payload.\<close>

definition no_payload_character :: jsval where
  "no_payload_character = JObj [(''type'', JStr ''character''), (''id'', JNum 1)]"

definition no_payload_deck :: jsval where
  "no_payload_deck = JObj [(''type'', JStr ''deck''), (''id'', JStr ''d3'')]"

text \<open>Collaborators that find nothing: fuzzy search switched off, no tags.\<close>

definition plain_env :: env where
  "plain_env =
     \<lparr> fuzzy_search = False,
       fuzzySearchCharacters = (\<lambda>_. []),
       fuzzySearchGroups = (\<lambda>_. []),
       fuzzySearchWorldInfo = (\<lambda>_ _. []),
       tag_map = Map.empty \<rparr>"

subsection \<open>Entries that the tag and search stages can read\<close>

text \<open>\<^verbatim>\<open>isElementTagged\<close> reads \<^verbatim>\<open>entity.item.avatar\<close> of a character: it does not
  throw when the entry is not \<^verbatim>\<open>null\<close> or \<^verbatim>\<open>undefined\<close> and, if it is a character,
  has a payload.\<close>

definition tag_ready :: "jsval \<Rightarrow> bool" where
  "tag_ready e = (\<not> nullish e \<and>
     (propOf e ''type'' = JStr ''character'' \<longrightarrow> \<not> nullish (propOf e ''item'')))"

text \<open>An entry matches a tag when \<^verbatim>\<open>isElementTagged\<close> returns \<^verbatim>\<open>true\<close>.\<close>

definition matches_tag :: "env \<Rightarrow> jsval \<Rightarrow> jsval \<Rightarrow> bool" where
  "matches_tag ev e t = (isElementTagged ev e t = Inr True)"

text \<open>The value of \<^verbatim>\<open>entity.item?.name\<close>, and the entries whose name is missing or a
  string: on any other name \<^verbatim>\<open>toLowerCase\<close> is not a function.\<close>

definition entry_name :: "jsval \<Rightarrow> jsval" where
  "entry_name e = (if nullish (propOf e ''item'') then JUndefined
                   else propOf (propOf e ''item'') ''name'')"

definition name_ready :: "jsval \<Rightarrow> bool" where
  "name_ready e =
     (\<not> nullish e \<and>
      (case entry_name e of
         JUndefined \<Rightarrow> True | JNull \<Rightarrow> True | JStr s \<Rightarrow> True | _ \<Rightarrow> False))"

subsection \<open>More sample data\<close>

definition carol :: jsval where
  "carol =
     JObj [(''type'', JStr ''character''), (''id'', JNum 3),
           (''item'', JObj [(''name'', JStr ''Carol''), (''avatar'', JStr ''carol.png'')])]"

text \<open>Collaborators with two tagged entries, and collaborators with fuzzy search
  switched on that find character 1 and group \<^verbatim>\<open>g1\<close>.\<close>

definition tagged_env :: env where
  "tagged_env =
     \<lparr> fuzzy_search = False,
       fuzzySearchCharacters = (\<lambda>_. []),
       fuzzySearchGroups = (\<lambda>_. []),
       fuzzySearchWorldInfo = (\<lambda>_ _. []),
       tag_map = [''carol.png'' \<mapsto> JArr [JStr ''a'', JStr ''b''],
                  ''g1'' \<mapsto> JArr [JStr ''a'']] \<rparr>"

definition fuzzy_env :: env where
  "fuzzy_env =
     \<lparr> fuzzy_search = True,
       fuzzySearchCharacters = (\<lambda>_. [JNum 1]),
       fuzzySearchGroups = (\<lambda>_. [JStr ''g1'']),
       fuzzySearchWorldInfo = (\<lambda>_ _. []),
       tag_map = Map.empty \<rparr>"

subsection \<open>The world-info matcher\<close>

text \<open>The assumption under which the pipeline is idempotent on a list \<open>L\<close>: among the
  lists made of entries of \<open>L\<close>, an entry whose uid the world-info matcher reports for a
  list is also reported for every smaller list that still contains the entry.\<close>

definition wi_stable_on :: "env \<Rightarrow> jsval \<Rightarrow> jsval list \<Rightarrow> bool" where
  "wi_stable_on ev needle L =
     (\<forall>xs zs z.
        set zs \<subseteq> set xs \<and> set xs \<subseteq> set L \<and> z \<in> set zs \<and>
        propOf z ''uid'' \<in> set (fuzzySearchWorldInfo ev xs needle)
        \<longrightarrow> propOf z ''uid'' \<in> set (fuzzySearchWorldInfo ev zs needle))"

text \<open>A matcher that tests each entry on its own, by \<open>m needle\<close>, and reports the uids of
  the entries of its list that pass; and the lists on which entries with the same uid
  fare alike under such a test, as they do when the uids are distinct.\<close>

definition reports_matching_uids :: "env \<Rightarrow> (jsval \<Rightarrow> jsval \<Rightarrow> bool) \<Rightarrow> bool" where
  "reports_matching_uids ev m =
     (\<forall>xs needle. set (fuzzySearchWorldInfo ev xs needle)
                    = (\<lambda>e. propOf e ''uid'') ` {e \<in> set xs. m needle e})"

definition matched_alike :: "(jsval \<Rightarrow> bool) \<Rightarrow> jsval list \<Rightarrow> bool" where
  "matched_alike t L =
     (\<forall>x\<in>set L. \<forall>y\<in>set L. propOf x ''uid'' = propOf y ''uid'' \<longrightarrow> t x = t y)"

text \<open>Such a matcher: an entry passes when its \<^verbatim>\<open>key\<close> is the search term.\<close>

definition key_matches :: "jsval \<Rightarrow> jsval \<Rightarrow> bool" where
  "key_matches needle e = (propOf e ''key'' = needle)"

definition key_env :: env where
  "key_env =
     \<lparr> fuzzy_search = False,
       fuzzySearchCharacters = (\<lambda>_. []),
       fuzzySearchGroups = (\<lambda>_. []),
       fuzzySearchWorldInfo =
         (\<lambda>data needle. map (\<lambda>e. propOf e ''uid'') (filter (key_matches needle) data)),
       tag_map = Map.empty \<rparr>"

definition keyed_entry_x :: jsval where
  "keyed_entry_x = JObj [(''uid'', JNum 1), (''key'', JStr ''x'')]"

definition keyed_entry_z :: jsval where
  "keyed_entry_z = JObj [(''uid'', JNum 2), (''key'', JStr ''z'')]"

text \<open>Two characters without a uid, of which only the first has the key \<^verbatim>\<open>x\<close>.\<close>

definition keyed_character_x :: jsval where
  "keyed_character_x =
     JObj [(''type'', JStr ''character''), (''id'', JNum 1), (''key'', JStr ''x'')]"

definition keyed_character_z :: jsval where
  "keyed_character_z =
     JObj [(''type'', JStr ''character''), (''id'', JNum 2), (''key'', JStr ''z'')]"

text \<open>A matcher that is not stable: it reports uid 1, but only when it is given at
  least two entries.\<close>

definition crowd_env :: env where
  "crowd_env =
     \<lparr> fuzzy_search = False,
       fuzzySearchCharacters = (\<lambda>_. []),
       fuzzySearchGroups = (\<lambda>_. []),
       fuzzySearchWorldInfo = (\<lambda>data _. if 2 \<le> length data then [JNum 1] else []),
       tag_map = Map.empty \<rparr>"

definition wi_entry_1 :: jsval where
  "wi_entry_1 = JObj [(''uid'', JNum 1)]"

definition wi_entry_2 :: jsval where
  "wi_entry_2 = JObj [(''uid'', JNum 2)]"

section \<open>Basic facts\<close>

lemma thenE_Inr: "thenE (Inr x) f = f x"
  by (simp add: thenE_def)

lemma thenE_Inl: "thenE (Inl e) f = Inl e"
  by (simp add: thenE_def)

lemmas FILTER_TYPES_defs =
  FILTER_TYPES_SEARCH_def FILTER_TYPES_FAV_def FILTER_TYPES_GROUP_def
  FILTER_TYPES_TAG_def FILTER_TYPES_WORLD_INFO_SEARCH_def

lemmas store_defs =
  read_filterData_def filterData_at_def assign_filterData_def JSON_stringify_stored_def

lemma getProp_propOf: "\<not> nullish v \<Longrightarrow> getProp v k = Inr (propOf v k)"
  by (cases v) (simp_all add: propOf_def nullish_def)

lemma getProp_Inr_propOf: "getProp v k = Inr x \<Longrightarrow> x = propOf v k"
  by (simp add: propOf_def)

lemma getProp_Inl_iff: "getProp v k = Inl e \<longleftrightarrow> nullish v"
  by (cases v; cases e) (simp_all add: nullish_def)

lemma show_int_1: "show_int 1 = ''1''"
  by (simp add: show_int_def digits.simps)

lemma show_int_2: "show_int 2 = ''2''"
  by (simp add: show_int_def digits.simps)

lemma set_uniq: "set (uniq xs) = set xs"
  by (simp add: uniq_def)

lemma lower_simps:
  "toLowerCase ''Alice'' = ''alice''"
  "toLowerCase ''Bob'' = ''bob''"
  "toLowerCase ''Alice's Group'' = ''alice's group''"
  "toLowerCase ''Al'' = ''al''"
  by (simp_all add: toLowerCase_def lower_char_def)

lemma trim_simps:
  "trim '' Alice '' = ''Alice''"
  "trim ''Al'' = ''Al''"
  by (simp_all add: trim_def is_space_def)

subsection \<open>The filter method with a callback that may throw\<close>

lemma js_filter_pure:
  "(\<And>x. x \<in> set xs \<Longrightarrow> p x = Inr (q x)) \<Longrightarrow> js_filter p xs = Inr (filter q xs)"
  by (induction xs) (simp_all add: thenE_def)

lemma js_filter_Inr_elems:
  "js_filter p xs = Inr ys \<Longrightarrow> x \<in> set xs \<Longrightarrow> \<exists>b. p x = Inr b"
  by (induction xs arbitrary: ys) (auto simp: thenE_def split: sum.splits)

lemma js_filter_Inr_eq:
  "js_filter p xs = Inr ys \<Longrightarrow> ys = filter (\<lambda>x. p x = Inr True) xs"
  by (induction xs arbitrary: ys) (auto simp: thenE_def split: sum.splits)

lemma js_filter_keep_all:
  "(\<And>x. x \<in> set zs \<Longrightarrow> p x = Inr True) \<Longrightarrow> js_filter p zs = Inr zs"
  by (induction zs) (simp_all add: thenE_def)

lemma js_filter_stable:
  assumes "js_filter p xs = Inr ys" and "set zs \<subseteq> set ys"
  shows "js_filter p zs = Inr zs"
proof (rule js_filter_keep_all)
  fix x assume "x \<in> set zs"
  with assms(2) have "x \<in> set ys" by blast
  with js_filter_Inr_eq[OF assms(1)] show "p x = Inr True" by simp
qed

lemma js_filter_subset: "js_filter p xs = Inr ys \<Longrightarrow> set ys \<subseteq> set xs"
  by (drule js_filter_Inr_eq) auto

section \<open>The criteria store\<close>

lemma filterData_at_own: "filterData h k = Some v \<Longrightarrow> filterData_at h k = v"
  by (simp add: filterData_at_def read_filterData_def)

lemma read_filterData_plain:
  assumes "k \<noteq> ''__proto__''" and "k \<notin> set Object_prototype_names"
    and "k \<notin> set Array_prototype_names"
  shows "\<exists>v. read_filterData h k = Plain v"
  using assms
  by (auto simp: read_filterData_def from_Object_prototype_def
      split: option.splits proto.splits jsval.splits)

lemma read_filterData_FILTER_TYPES:
  assumes "k \<in> {FILTER_TYPES_SEARCH, FILTER_TYPES_GROUP, FILTER_TYPES_FAV, FILTER_TYPES_TAG,
                FILTER_TYPES_WORLD_INFO_SEARCH}"
  shows "read_filterData h k = Plain (filterData_at h k)"
proof -
  have "k \<noteq> ''__proto__''" "k \<notin> set Object_prototype_names" "k \<notin> set Array_prototype_names"
    using assms
    by (auto simp: FILTER_TYPES_defs Object_prototype_names_def Array_prototype_names_def)
  then obtain v where "read_filterData h k = Plain v"
    using read_filterData_plain by blast
  then show ?thesis
    by (simp add: filterData_at_def)
qed

lemma assign_filterData_own:
  "k \<noteq> ''__proto__'' \<Longrightarrow> assign_filterData h k v = h\<lparr>filterData := (filterData h)(k \<mapsto> v)\<rparr>"
  by (simp add: assign_filterData_def)

lemma assign_filterData_fields:
  "onDataChanged_calls (assign_filterData h k v) = onDataChanged_calls h"
  "filterFunctions (assign_filterData h k v) = filterFunctions h"
  by (simp_all add: assign_filterData_def split: jsval.splits)

lemma setFilterData_filterFunctions:
  "filterFunctions (setFilterData h k v s) = filterFunctions h"
  by (simp add: setFilterData_def Let_def assign_filterData_fields)

lemma setFilterData_filterData:
  "k \<noteq> ''__proto__'' \<Longrightarrow> filterData (setFilterData h k v s) = (filterData h)(k \<mapsto> v)"
  by (simp add: setFilterData_def Let_def assign_filterData_own)

lemma setFilterData_filterData_proto:
  "k \<noteq> ''__proto__'' \<Longrightarrow> filterData_proto (setFilterData h k v s) = filterData_proto h"
  by (simp add: setFilterData_def Let_def assign_filterData_own)

lemma read_filterData_cong:
  "filterData h' k = filterData h k \<Longrightarrow> filterData_proto h' = filterData_proto h \<Longrightarrow>
   read_filterData h' k = read_filterData h k"
  by (simp add: read_filterData_def split: option.splits)

lemma filterData_at_setFilterData:
  "k \<noteq> ''__proto__'' \<Longrightarrow> filterData_at (setFilterData h k v s) k = v"
  by (simp add: filterData_at_own setFilterData_filterData)

lemma filterData_at_setFilterData_other:
  "k \<noteq> ''__proto__'' \<Longrightarrow> k' \<noteq> k \<Longrightarrow>
   filterData_at (setFilterData h k v s) k' = filterData_at h k'"
  by (simp add: filterData_at_def
      read_filterData_cong[of "setFilterData h k v s" k' h]
      setFilterData_filterData setFilterData_filterData_proto)

lemma setFilterData_keeps_keys:
  assumes "filterData h k = Some w"
  shows "\<exists>w'. filterData (setFilterData h k' v s) k = Some w'"
  using assms
  by (auto simp: setFilterData_def Let_def assign_filterData_def split: jsval.splits)

lemma setFilterData_calls:
  "onDataChanged_calls (setFilterData h k v s) =
     (if JSON_stringify_stored (read_filterData h k) \<noteq> JSON_stringify v \<and> \<not> s
      then Suc (onDataChanged_calls h) else onDataChanged_calls h)"
  by (simp add: setFilterData_def Let_def assign_filterData_fields)

lemma new_filterData:
  "filterData new_FilterHelper FILTER_TYPES_SEARCH = Some (JStr [])"
  "filterData new_FilterHelper FILTER_TYPES_GROUP = Some (JBool False)"
  "filterData new_FilterHelper FILTER_TYPES_FAV = Some (JBool False)"
  "filterData new_FilterHelper FILTER_TYPES_TAG
     = Some (JObj [(''excluded'', JArr []), (''selected'', JArr [])])"
  "filterData new_FilterHelper FILTER_TYPES_WORLD_INFO_SEARCH = Some (JStr [])"
  by (simp_all add: new_FilterHelper_def FILTER_TYPES_defs)

lemma new_filterData_at:
  "filterData_at new_FilterHelper ''search'' = JStr []"
  "filterData_at new_FilterHelper ''group'' = JBool False"
  "filterData_at new_FilterHelper ''fav'' = JBool False"
  "filterData_at new_FilterHelper ''tag'' = JObj [(''excluded'', JArr []), (''selected'', JArr [])]"
  "filterData_at new_FilterHelper ''world_info_search'' = JStr []"
  by (simp_all add: filterData_at_def read_filterData_def new_FilterHelper_def FILTER_TYPES_defs)

text \<open>What a new helper inherits: a built-in function under \<^verbatim>\<open>constructor\<close> and
  \<^verbatim>\<open>toString\<close>, and \<^verbatim>\<open>Object.prototype\<close> itself under \<^verbatim>\<open>__proto__\<close>.\<close>

lemma getFilterData_inherited:
  "getFilterData new_FilterHelper ''constructor'' = Inr (Builtin ''constructor'')"
  "getFilterData new_FilterHelper ''toString'' = Inr (Builtin ''toString'')"
  "getFilterData new_FilterHelper ''__proto__'' = Inr TheObjectPrototype"
  by (simp_all add: getFilterData_def read_filterData_def from_Object_prototype_def
      Object_prototype_names_def new_FilterHelper_def FILTER_TYPES_defs)




text \<open>Claim C3, as amended. \<^verbatim>\<open>getFilterData(kind)\<close> raises no fault for any kind. It
  returns the value stored under \<open>kind\<close> when there is one. When there is none and the
  store still has the prototype of an object literal, it returns what
  \<^verbatim>\<open>Object.prototype\<close> holds under that name: \<^verbatim>\<open>undefined\<close>, unless the name is
  \<^verbatim>\<open>__proto__\<close> or the name of a member of \<^verbatim>\<open>Object.prototype\<close>.\<close>

theorem getFilterData_never_fails:
  "(\<forall>e. getFilterData h k \<noteq> Inl e) \<and>
   (\<forall>v. filterData h k = Some v \<longrightarrow> getFilterData h k = Inr (Plain v)) \<and>
   (filterData h k = None \<and> filterData_proto h = ObjectPrototype \<and>
    k \<noteq> ''__proto__'' \<and> k \<notin> set Object_prototype_names
      \<longrightarrow> getFilterData h k = Inr (Plain JUndefined))"
  by (simp add: getFilterData_def read_filterData_def from_Object_prototype_def)

theorem getFilterData_never_fails_witness:
  "filterData new_FilterHelper ''search'' = Some (JStr []) \<and>
   getFilterData new_FilterHelper ''search'' = Inr (Plain (JStr [])) \<and>
   filterData new_FilterHelper ''bogus'' = None \<and>
   filterData_proto new_FilterHelper = ObjectPrototype \<and>
   ''bogus'' \<notin> set Object_prototype_names \<and>
   getFilterData new_FilterHelper ''bogus'' = Inr (Plain JUndefined)"
proof -
  have s: "filterData new_FilterHelper ''search'' = Some (JStr [])"
    and b: "filterData new_FilterHelper ''bogus'' = None"
    and p: "filterData_proto new_FilterHelper = ObjectPrototype"
    by (simp_all add: new_FilterHelper_def FILTER_TYPES_defs)
  have n: "''bogus'' \<noteq> ''__proto__''" "''bogus'' \<notin> set Object_prototype_names"
    by (simp_all add: Object_prototype_names_def)
  from getFilterData_never_fails[of new_FilterHelper "''search''"] s
  have 1: "getFilterData new_FilterHelper ''search'' = Inr (Plain (JStr []))"
    by blast
  from getFilterData_never_fails[of new_FilterHelper "''bogus''"] b p n
  have 2: "getFilterData new_FilterHelper ''bogus'' = Inr (Plain JUndefined)"
    by blast
  show ?thesis
    using s b p n 1 2 by blast
qed

text \<open>Claim C3 as stated fails: for the kind \<^verbatim>\<open>bogus\<close>, which a new helper neither
  registers a filter for nor stores a value for, the read returns \<^verbatim>\<open>undefined\<close>.\<close>

theorem getFilterData_unknown_kind_counterexample:
  "''bogus'' \<notin> set (map fst (filterFunctions new_FilterHelper)) \<and>
   ''bogus'' \<notin> dom (filterData new_FilterHelper) \<and>
   getFilterData new_FilterHelper ''bogus'' = Inr (Plain JUndefined)"
  by (simp add: getFilterData_def read_filterData_def from_Object_prototype_def
      Object_prototype_names_def new_FilterHelper_def FILTER_TYPES_defs dom_def)

text \<open>Claim C4, at the input where the code departs from it. The default tag criteria
  and the same criteria with the keys \<^verbatim>\<open>selected\<close> and \<^verbatim>\<open>excluded\<close> written in the
  other order are deep-structurally equal, and storing the second over the first with
  \<^verbatim>\<open>suppressDataChanged\<close> false calls \<^verbatim>\<open>onDataChanged\<close> once: the two serialise to
  different strings.\<close>

theorem setFilterData_reordered_tag_notifies:
  "deep_equal (filterData_at new_FilterHelper FILTER_TYPES_TAG) tag_criteria_reordered \<and>
   onDataChanged_calls new_FilterHelper = 0 \<and>
   onDataChanged_calls
     (setFilterData new_FilterHelper FILTER_TYPES_TAG tag_criteria_reordered False) = 1"
proof -
  have r: "read_filterData new_FilterHelper FILTER_TYPES_TAG
           = Plain (JObj [(''excluded'', JArr []), (''selected'', JArr [])])"
    by (simp add: read_filterData_def new_filterData)
  have "deep_equal (filterData_at new_FilterHelper FILTER_TYPES_TAG) tag_criteria_reordered"
    by (auto simp: FILTER_TYPES_TAG_def new_filterData_at tag_criteria_reordered_def)
  moreover have "JSON_stringify_stored (read_filterData new_FilterHelper FILTER_TYPES_TAG)
                 \<noteq> JSON_stringify tag_criteria_reordered"
    by (simp add: r JSON_stringify_stored_def tag_criteria_reordered_def
        json_quote_def json_escape_def)
  ultimately show ?thesis
    by (simp add: setFilterData_calls) (simp add: new_FilterHelper_def)
qed

section \<open>Deck de-duplication\<close>

lemma reduce_decks_pure:
  "(\<And>d. d \<in> set ds \<Longrightarrow> \<not> nullish d \<and> \<not> nullish (propOf d ''item'')) \<Longrightarrow>
   js_reduce (\<lambda>a b. thenE (getProp b ''item'') (\<lambda>i.
                thenE (getProp i ''characters'') (\<lambda>c. Inr (js_concat a c)))) a ds
   = Inr (a @ concat (map deck_characters ds))"
proof (induction ds arbitrary: a)
  case Nil
  then show ?case by simp
next
  case (Cons d ds)
  have d: "\<not> nullish d" "\<not> nullish (propOf d ''item'')"
    using Cons.prems by auto
  have step: "js_concat a (propOf (propOf d ''item'') ''characters'') = a @ deck_characters d"
    by (simp add: deck_characters_def js_concat_def split: jsval.splits)
  show ?case
    using Cons.IH[of "a @ deck_characters d"] Cons.prems
    by (simp add: getProp_propOf[OF d(1)] getProp_propOf[OF d(2)] thenE_Inr step)
qed

lemma hideCharactersAlreadyInDeck_pure:
  assumes "deck_ready data"
  shows "hideCharactersAlreadyInDeck data =
         Inr (filter (\<lambda>e. JStr (ToString (propOf e ''id'')) \<notin> set (deck_members data)) data)"
proof -
  have ok: "\<And>e. e \<in> set data \<Longrightarrow> \<not> nullish e"
    and pay: "\<And>e. e \<in> set data \<Longrightarrow> is_deck e \<Longrightarrow> \<not> nullish (propOf e ''item'')"
    using assms by (auto simp: deck_ready_def list_all_iff)
  have s1: "js_filter (\<lambda>item. thenE (getProp item ''type'') (\<lambda>t. Inr (JStr ''deck'' = t))) data
            = Inr (filter is_deck data)"
    by (rule js_filter_pure) (auto simp: getProp_propOf ok thenE_Inr is_deck_def)
  have s2: "js_reduce (\<lambda>a b. thenE (getProp b ''item'') (\<lambda>i.
                thenE (getProp i ''characters'') (\<lambda>c. Inr (js_concat a c)))) []
              (filter is_deck data)
            = Inr (deck_members data)"
    using reduce_decks_pure[of "filter is_deck data" "[]"] ok pay
    by (simp add: deck_members_def)
  have s3: "js_filter (\<lambda>item. thenE (getProp item ''id'') (\<lambda>i.
                  Inr (False = includes_arr (uniq (deck_members data)) (JStr (ToString i))))) data
            = Inr (filter (\<lambda>e. JStr (ToString (propOf e ''id'')) \<notin> set (deck_members data)) data)"
    by (rule js_filter_pure) (auto simp: getProp_propOf ok thenE_Inr includes_arr_def set_uniq)
  show ?thesis
    using s3 unfolding hideCharactersAlreadyInDeck_def
    by (simp add: s1 s2 thenE_Inr Let_def)
qed

text \<open>Claim C9, as amended. On a list with no \<^verbatim>\<open>null\<close> or \<^verbatim>\<open>undefined\<close> entry in
  which every deck has a payload, the stage collects the member identifiers of all
  deck entries as they are stored, and drops exactly the entries whose identifier,
  converted to a string, is one of them; so a member stored as a number hides nothing.
  In the scenario (a deck with member \<^verbatim>\<open>"1"\<close>, characters 1 and 2) character 1 is
  dropped, character 2 and the deck are kept.\<close>

theorem hideCharactersAlreadyInDeck_spec:
  "(deck_ready data \<longrightarrow>
      hideCharactersAlreadyInDeck data =
        Inr (filter (\<lambda>e. JStr (ToString (propOf e ''id'')) \<notin> set (deck_members data)) data)) \<and>
   hideCharactersAlreadyInDeck [sample_deck, alice, bob] = Inr [sample_deck, bob]"
proof -
  have "hideCharactersAlreadyInDeck [sample_deck, alice, bob] = Inr [sample_deck, bob]"
    by (simp add: hideCharactersAlreadyInDeck_def sample_deck_def alice_def bob_def thenE_def
        js_concat_def uniq_def includes_arr_def show_int_1 show_int_2)
  then show ?thesis
    using hideCharactersAlreadyInDeck_pure by blast
qed

theorem hideCharactersAlreadyInDeck_spec_witness:
  "deck_ready [numeric_deck, sample_deck, alice, bob] \<and>
   deck_members [numeric_deck, sample_deck, alice, bob] = [JNum 1, JStr ''1''] \<and>
   hideCharactersAlreadyInDeck [numeric_deck, sample_deck, alice, bob]
     = Inr [numeric_deck, sample_deck, bob]"
  using hideCharactersAlreadyInDeck_spec[of "[numeric_deck, sample_deck, alice, bob]"]
  by (simp add: deck_ready_def deck_members_def deck_characters_def is_deck_def propOf_def
      numeric_deck_def sample_deck_def alice_def bob_def nullish_def js_concat_def
      show_int_1 show_int_2)

text \<open>Claim C9 as stated fails: with a deck whose member is the number 1, the
  identifier of character 1, converted to a string, is among the members converted to
  strings, and the stage keeps the character all the same.\<close>

theorem hideCharactersAlreadyInDeck_numeric_member_counterexample:
  "JStr (ToString (propOf alice ''id''))
     \<in> set (stringified_deck_members [numeric_deck, alice, bob]) \<and>
   hideCharactersAlreadyInDeck [numeric_deck, alice, bob] = Inr [numeric_deck, alice, bob]"
  by (simp add: hideCharactersAlreadyInDeck_def stringified_deck_members_def deck_members_def
      deck_characters_def is_deck_def propOf_def numeric_deck_def alice_def bob_def thenE_def
      js_concat_def uniq_def includes_arr_def show_int_1 show_int_2)

section \<open>The pipeline\<close>

lemma applyFilters_new_stages:
  assumes "filterFunctions h = filterFunctions new_FilterHelper"
  shows "applyFilters ev h data =
     thenE (searchFilter ev h data) (\<lambda>d1.
     thenE (groupFilter h d1) (\<lambda>d2.
     thenE (favFilter h d2) (\<lambda>d3.
     thenE (tagFilter ev h d3) (\<lambda>d4.
     thenE (wiSearchFilter ev h d4) hideCharactersAlreadyInDeck))))"
  by (simp add: applyFilters_def assms new_FilterHelper_def thenE_def split: sum.splits)

text \<open>Claim C1, as amended. With every criteria kind at its default value the five
  criteria stages return their input, so \<^verbatim>\<open>applyFilters(L)\<close> is the result of the
  deck stage on \<open>L\<close>; it is \<open>L\<close> itself when the deck stage has nothing to hide, that
  is when no entry is \<^verbatim>\<open>null\<close> or \<^verbatim>\<open>undefined\<close>, every deck has a payload, and no
  entry's identifier, converted to a string, is listed by a deck of \<open>L\<close>.\<close>

theorem applyFilters_defaults:
  assumes "filterFunctions h = filterFunctions new_FilterHelper"
    and "filterData h FILTER_TYPES_SEARCH = Some (JStr [])"
    and "filterData h FILTER_TYPES_GROUP = Some (JBool False)"
    and "filterData h FILTER_TYPES_FAV = Some (JBool False)"
    and "filterData h FILTER_TYPES_TAG
           = Some (JObj [(''excluded'', JArr []), (''selected'', JArr [])])"
    and "filterData h FILTER_TYPES_WORLD_INFO_SEARCH = Some (JStr [])"
  shows "applyFilters ev h L = hideCharactersAlreadyInDeck L \<and>
         (deck_ready L \<and>
          list_all (\<lambda>e. JStr (ToString (propOf e ''id'')) \<notin> set (deck_members L)) L
            \<longrightarrow> applyFilters ev h L = Inr L)"
proof -
  have s: "searchFilter ev h L = Inr L"
    by (simp add: searchFilter_def filterData_at_own assms)
  have g: "groupFilter h L = Inr L"
    by (simp add: groupFilter_def filterData_at_own assms)
  have f: "favFilter h L = Inr L"
    by (simp add: favFilter_def filterData_at_own assms)
  have t: "tagFilter ev h L = Inr L"
    by (simp add: tagFilter_def filterData_at_own assms thenE_def)
  have w: "wiSearchFilter ev h L = Inr L"
    by (simp add: wiSearchFilter_def filterData_at_own assms)
  have a: "applyFilters ev h L = hideCharactersAlreadyInDeck L"
    by (simp add: applyFilters_new_stages[OF assms(1)] s g f t w thenE_Inr)
  show ?thesis
    by (auto simp: a hideCharactersAlreadyInDeck_pure list_all_iff filter_id_conv)
qed

theorem applyFilters_defaults_witness:
  "deck_ready [sample_deck, bob] \<and>
   applyFilters plain_env new_FilterHelper [sample_deck, bob] = Inr [sample_deck, bob]"
proof -
  have ready: "deck_ready [sample_deck, bob]"
    by (simp add: deck_ready_def is_deck_def propOf_def sample_deck_def bob_def nullish_def)
  have nomem: "list_all (\<lambda>e. JStr (ToString (propOf e ''id''))
                  \<notin> set (deck_members [sample_deck, bob])) [sample_deck, bob]"
    by (simp add: deck_members_def deck_characters_def is_deck_def propOf_def
      sample_deck_def bob_def js_concat_def show_int_2)
  from applyFilters_defaults[OF refl new_filterData, of plain_env "[sample_deck, bob]"]
    ready nomem
  show ?thesis by blast
qed

text \<open>Claim C1 as stated fails: a new helper holds every default, and the character
  that the deck lists is dropped.\<close>

theorem applyFilters_defaults_counterexample:
  "filterData new_FilterHelper FILTER_TYPES_SEARCH = Some (JStr []) \<and>
   filterData new_FilterHelper FILTER_TYPES_GROUP = Some (JBool False) \<and>
   filterData new_FilterHelper FILTER_TYPES_FAV = Some (JBool False) \<and>
   filterData new_FilterHelper FILTER_TYPES_TAG
     = Some (JObj [(''excluded'', JArr []), (''selected'', JArr [])]) \<and>
   filterData new_FilterHelper FILTER_TYPES_WORLD_INFO_SEARCH = Some (JStr []) \<and>
   applyFilters plain_env new_FilterHelper [sample_deck, alice, bob] = Inr [sample_deck, bob]"
proof -
  have "applyFilters plain_env new_FilterHelper [sample_deck, alice, bob]
        = hideCharactersAlreadyInDeck [sample_deck, alice, bob]"
    by (simp add: applyFilters_new_stages searchFilter_def groupFilter_def favFilter_def
        tagFilter_def wiSearchFilter_def new_filterData_at FILTER_TYPES_defs thenE_def)
  moreover have "hideCharactersAlreadyInDeck [sample_deck, alice, bob] = Inr [sample_deck, bob]"
    by (simp add: hideCharactersAlreadyInDeck_def sample_deck_def alice_def bob_def thenE_def
        js_concat_def uniq_def includes_arr_def show_int_1 show_int_2)
  ultimately show ?thesis
    by (simp add: new_filterData)
qed

section \<open>Entries without a payload\<close>

text \<open>Claim C2, at the input where the code departs from it. With the favourite
  criterion switched on, an entry that has no payload makes \<^verbatim>\<open>favFilter\<close> throw: line
  131 reads \<^verbatim>\<open>entity.item.fav\<close> unguarded, where \<^verbatim>\<open>searchFilter\<close> reads
  \<^verbatim>\<open>entity.item?.name\<close>. A deck without a payload makes the deck stage throw in the
  same way, and so does a character without a payload in the tag stage once a tag is
  excluded.\<close>

theorem favFilter_missing_payload_raises:
  "favFilter (setFilterData new_FilterHelper FILTER_TYPES_FAV (JBool True) False)
     [no_payload_character] = Inl TypeError \<and>
   hideCharactersAlreadyInDeck [no_payload_deck] = Inl TypeError \<and>
   tagFilter plain_env
     (setFilterData new_FilterHelper FILTER_TYPES_TAG
        (JObj [(''excluded'', JArr [JStr ''a'']), (''selected'', JArr [])]) False)
     [no_payload_character] = Inl TypeError"
  by (simp add: favFilter_def tagFilter_def getIsTagged_def isElementTagged_def call_map_def
      filterData_at_setFilterData FILTER_TYPES_defs no_payload_character_def no_payload_deck_def
      hideCharactersAlreadyInDeck_def thenE_def)

section \<open>The tag stage\<close>

lemma js_map_pure:
  "(\<And>x. x \<in> set xs \<Longrightarrow> f x = Inr (g x)) \<Longrightarrow> js_map f xs = Inr (map g xs)"
  by (induction xs) (simp_all add: thenE_def)

lemma isElementTagged_ready:
  assumes "tag_ready e"
  shows "isElementTagged ev e t = Inr (matches_tag ev e t)"
proof -
  have e: "\<not> nullish e" using assms by (simp add: tag_ready_def)
  show ?thesis
  proof (cases "propOf e ''type'' = JStr ''character''")
    case True
    then have i: "\<not> nullish (propOf e ''item'')" using assms by (simp add: tag_ready_def)
    show ?thesis
      by (simp add: matches_tag_def isElementTagged_def getProp_propOf[OF e] getProp_propOf[OF i]
          thenE_Inr True Let_def)
  next
    case False
    then show ?thesis
      by (simp add: matches_tag_def isElementTagged_def getProp_propOf[OF e] thenE_Inr Let_def)
  qed
qed

lemma all_flags_true:
  "(length ts = length (filter g ts)) = (\<forall>t\<in>set ts. g t)"
proof (induction ts)
  case Nil
  then show ?case by simp
next
  case (Cons t ts)
  have le: "length (filter g ts) \<le> length ts"
    by (rule length_filter_le)
  show ?case
  proof (cases "g t")
    case True
    then show ?thesis using Cons by simp
  next
    case False
    moreover have "Suc (length ts) \<noteq> length (filter g ts)"
      using le by linarith
    ultimately show ?thesis by auto
  qed
qed

lemma getIsTagged_ready:
  assumes "tag_ready e"
  shows "getIsTagged ev (JArr selected) (JArr excluded) e =
         Inr ((\<forall>t\<in>set excluded. \<not> matches_tag ev e t) \<and>
              (selected = [] \<or> (\<forall>t\<in>set selected. matches_tag ev e t)))"
proof -
  have m: "\<And>ts. js_map (isElementTagged ev e) ts = Inr (map (matches_tag ev e) ts)"
    by (rule js_map_pure) (simp add: isElementTagged_ready[OF assms])
  show ?thesis
    by (simp add: getIsTagged_def call_map_def m thenE_Inr TAG_LOGIC_AND_def Let_def
        all_flags_true)
qed

text \<open>Claim C5. Let the tag criteria hold the arrays \<open>selected\<close> and \<open>excluded\<close>.
  When both are empty \<^verbatim>\<open>tagFilter\<close> returns its input. When one of them is not, and
  every entry can be read (it is not \<^verbatim>\<open>null\<close> or \<^verbatim>\<open>undefined\<close>, and a character has a
  payload), \<^verbatim>\<open>tagFilter\<close> keeps exactly the entries that match no excluded tag and,
  if \<open>selected\<close> is not empty, match every selected tag.\<close>

theorem tagFilter_spec:
  assumes "getProp (filterData_at h FILTER_TYPES_TAG) ''selected'' = Inr (JArr selected)"
      and "getProp (filterData_at h FILTER_TYPES_TAG) ''excluded'' = Inr (JArr excluded)"
  shows "(selected = [] \<and> excluded = [] \<longrightarrow> tagFilter ev h data = Inr data) \<and>
         ((selected \<noteq> [] \<or> excluded \<noteq> []) \<and> list_all tag_ready data \<longrightarrow>
            tagFilter ev h data =
              Inr (filter (\<lambda>e. (\<forall>t\<in>set excluded. \<not> matches_tag ev e t) \<and>
                              (selected = [] \<or> (\<forall>t\<in>set selected. matches_tag ev e t))) data))"
proof -
  have unfold: "tagFilter ev h data =
      (if selected = [] \<and> excluded = [] then Inr data
       else js_filter (getIsTagged ev (JArr selected) (JArr excluded)) data)"
    by (simp add: tagFilter_def assms thenE_Inr)
  have f: "js_filter (getIsTagged ev (JArr selected) (JArr excluded)) data =
           Inr (filter (\<lambda>e. (\<forall>t\<in>set excluded. \<not> matches_tag ev e t) \<and>
                              (selected = [] \<or> (\<forall>t\<in>set selected. matches_tag ev e t))) data)"
    if "list_all tag_ready data"
    using that by (intro js_filter_pure getIsTagged_ready) (simp add: list_all_iff)
  show ?thesis
    unfolding unfold using f by simp
qed

theorem tagFilter_spec_witness:
  "list_all tag_ready [carol, alices_group, alice] \<and>
   tagFilter tagged_env
     (setFilterData new_FilterHelper FILTER_TYPES_TAG
        (JObj [(''excluded'', JArr []), (''selected'', JArr [JStr ''a'', JStr ''b''])]) False)
     [carol, alices_group, alice] = Inr [carol] \<and>
   tagFilter tagged_env
     (setFilterData new_FilterHelper FILTER_TYPES_TAG
        (JObj [(''excluded'', JArr [JStr ''a'']), (''selected'', JArr [])]) False)
     [carol, alices_group, alice] = Inr [alice] \<and>
   tagFilter tagged_env new_FilterHelper [carol, alices_group, alice]
     = Inr [carol, alices_group, alice]"
proof -
  have r: "list_all tag_ready [carol, alices_group, alice]"
    by (simp add: tag_ready_def carol_def alices_group_def alice_def propOf_def nullish_def)
  have m: "matches_tag tagged_env carol (JStr ''a'')" "matches_tag tagged_env carol (JStr ''b'')"
    "matches_tag tagged_env alices_group (JStr ''a'')"
    "\<not> matches_tag tagged_env alices_group (JStr ''b'')"
    "\<not> matches_tag tagged_env alice (JStr ''a'')"
    by (simp_all add: matches_tag_def isElementTagged_def tagged_env_def carol_def
        alices_group_def alice_def thenE_def includes_arr_def)
  have 1: "tagFilter tagged_env
     (setFilterData new_FilterHelper FILTER_TYPES_TAG
        (JObj [(''excluded'', JArr []), (''selected'', JArr [JStr ''a'', JStr ''b''])]) False)
     [carol, alices_group, alice] = Inr [carol]"
    using tagFilter_spec[of _ "[JStr ''a'', JStr ''b'']" "[]" tagged_env "[carol, alices_group, alice]"] r m
    by (simp add: filterData_at_setFilterData FILTER_TYPES_defs)
  have 2: "tagFilter tagged_env
     (setFilterData new_FilterHelper FILTER_TYPES_TAG
        (JObj [(''excluded'', JArr [JStr ''a'']), (''selected'', JArr [])]) False)
     [carol, alices_group, alice] = Inr [alice]"
    using tagFilter_spec[of _ "[]" "[JStr ''a'']" tagged_env "[carol, alices_group, alice]"] r m
    by (simp add: filterData_at_setFilterData FILTER_TYPES_defs)
  have 3: "tagFilter tagged_env new_FilterHelper [carol, alices_group, alice]
     = Inr [carol, alices_group, alice]"
    using tagFilter_spec[of new_FilterHelper "[]" "[]" tagged_env "[carol, alices_group, alice]"]
    by (simp add: FILTER_TYPES_TAG_def new_filterData_at)
  show ?thesis using r 1 2 3 by simp
qed

section \<open>The search stage\<close>

lemma take_eq_prefix: "(take (length p) xs = p) = prefix p xs"
proof
  assume "take (length p) xs = p"
  then show "prefix p xs"
    using take_is_prefix[of "length p" xs] by simp
next
  assume "prefix p xs"
  then obtain zs where "xs = p @ zs"
    by (auto simp: prefix_def)
  then show "take (length p) xs = p"
    by simp
qed

lemma includes_str_sublist: "includes_str s p = sublist p s"
proof (induction s)
  case Nil
  then show ?case by simp
next
  case (Cons c cs)
  then show ?case
    by (simp add: sublist_Cons_right take_eq_prefix del: take_Suc_Cons)
qed

lemma getIsValidSearch_exact:
  assumes "\<not> fuzzy_search ev" and "name_ready e"
  shows "getIsValidSearch ev sv cs gs e =
         Inr (case entry_name e of JStr s \<Rightarrow> sublist sv (toLowerCase s) | _ \<Rightarrow> False)"
proof -
  have e: "\<not> nullish e" using assms by (simp add: name_ready_def)
  show ?thesis
  proof (cases "nullish (propOf e ''item'')")
    case True
    then show ?thesis
      by (simp add: getIsValidSearch_def getProp_propOf[OF e] thenE_Inr assms(1) Let_def entry_name_def)
  next
    case False
    then show ?thesis
      using assms(2)
      by (auto simp: getIsValidSearch_def getProp_propOf[OF e] getProp_propOf[OF False] thenE_Inr
          assms(1) Let_def entry_name_def name_ready_def nullish_def includes_str_sublist
          split: jsval.splits)
  qed
qed

text \<open>Claim C7. Let the search criterion be a non-empty string \<open>q\<close> and fuzzy search be
  off, and let every entry be readable with a name that is missing or a string. Then
  \<^verbatim>\<open>searchFilter\<close> does not throw and keeps exactly the entries whose name is a string
  that, in lower case, has the trimmed \<open>q\<close> in lower case as a contiguous substring; an
  entry with no payload or no name is dropped.\<close>

theorem searchFilter_exact:
  assumes "filterData_at h FILTER_TYPES_SEARCH = JStr q" and "q \<noteq> []"
      and "\<not> fuzzy_search ev"
      and "list_all name_ready data"
  shows "searchFilter ev h data =
         Inr (filter (\<lambda>e. case entry_name e of
                             JStr s \<Rightarrow> sublist (toLowerCase (trim q)) (toLowerCase s)
                           | _ \<Rightarrow> False) data)"
proof -
  have "js_filter (getIsValidSearch ev (toLowerCase (trim q)) [] []) data =
        Inr (filter (\<lambda>e. case entry_name e of
                             JStr s \<Rightarrow> sublist (toLowerCase (trim q)) (toLowerCase s)
                           | _ \<Rightarrow> False) data)"
    using assms(4) by (intro js_filter_pure getIsValidSearch_exact assms(3)) (simp add: list_all_iff)
  then show ?thesis
    by (simp add: searchFilter_def assms call_trim_def thenE_Inr Let_def)
qed

theorem searchFilter_exact_witness:
  "\<not> fuzzy_search plain_env \<and>
   list_all name_ready [alice, bob, alices_group, no_payload_character] \<and>
   searchFilter plain_env
     (setFilterData new_FilterHelper FILTER_TYPES_SEARCH (JStr '' Alice '') False)
     [alice, bob, alices_group, no_payload_character] = Inr [alice, alices_group]"
proof -
  have r: "list_all name_ready [alice, bob, alices_group, no_payload_character]"
    by (simp add: name_ready_def entry_name_def alice_def bob_def alices_group_def
        no_payload_character_def propOf_def nullish_def)
  have n: "entry_name alice = JStr ''Alice''" "entry_name bob = JStr ''Bob''"
    "entry_name alices_group = JStr ''Alice's Group''"
    "entry_name no_payload_character = JUndefined"
    by (simp_all add: entry_name_def alice_def bob_def alices_group_def
        no_payload_character_def propOf_def nullish_def)
  have i: "sublist ''alice'' ''alice''" "\<not> sublist ''alice'' ''bob''"
    "sublist ''alice'' ''alice's group''"
    by (simp_all add: includes_str_sublist[symmetric])
  show ?thesis
    using searchFilter_exact[of _ "'' Alice ''" plain_env
        "[alice, bob, alices_group, no_payload_character]"] r
    by (simp add: filterData_at_setFilterData FILTER_TYPES_defs plain_env_def n i lower_simps
        trim_simps)
qed

text \<open>Claim C8. Let the search criterion be a non-empty string \<open>q\<close> and fuzzy search be
  on, and let no entry be \<^verbatim>\<open>null\<close> or \<^verbatim>\<open>undefined\<close>. Then \<^verbatim>\<open>searchFilter\<close> keeps an
  entry exactly when it is a character and \<^verbatim>\<open>parseInt\<close> of its identifier is among the
  character matches, or it is a group and its identifier as a string is among the group
  matches; every entry of another kind is dropped.\<close>

theorem searchFilter_fuzzy:
  assumes "filterData_at h FILTER_TYPES_SEARCH = JStr q" and "q \<noteq> []"
      and "fuzzy_search ev"
      and "list_all (\<lambda>e. \<not> nullish e) data"
  shows "searchFilter ev h data =
         Inr (filter (\<lambda>e.
                (propOf e ''type'' = JStr ''character'' \<and>
                 parseInt (propOf e ''id'') \<in> set (fuzzySearchCharacters ev (toLowerCase (trim q)))) \<or>
                (propOf e ''type'' = JStr ''group'' \<and>
                 JStr (ToString (propOf e ''id'')) \<in> set (fuzzySearchGroups ev (toLowerCase (trim q))))) data)"
proof -
  have "js_filter (getIsValidSearch ev (toLowerCase (trim q))
           (fuzzySearchCharacters ev (toLowerCase (trim q)))
           (fuzzySearchGroups ev (toLowerCase (trim q)))) data =
         Inr (filter (\<lambda>e.
                (propOf e ''type'' = JStr ''character'' \<and>
                 parseInt (propOf e ''id'') \<in> set (fuzzySearchCharacters ev (toLowerCase (trim q)))) \<or>
                (propOf e ''type'' = JStr ''group'' \<and>
                 JStr (ToString (propOf e ''id'')) \<in> set (fuzzySearchGroups ev (toLowerCase (trim q))))) data)"
    using assms(4)
    by (intro js_filter_pure)
       (auto simp: list_all_iff getIsValidSearch_def getProp_propOf thenE_Inr assms(3) Let_def includes_arr_def)
  then show ?thesis
    by (simp add: searchFilter_def assms call_trim_def thenE_Inr Let_def)
qed

theorem searchFilter_fuzzy_witness:
  "fuzzy_search fuzzy_env \<and>
   searchFilter fuzzy_env
     (setFilterData new_FilterHelper FILTER_TYPES_SEARCH (JStr ''Al'') False)
     [alice, bob, alices_group, sample_deck] = Inr [alice, alices_group]"
proof -
  have p: "parseInt (JNum 1) = JNum 1" "parseInt (JNum 2) = JNum 2"
    by (simp_all add: parseInt_def show_int_1 show_int_2 is_space_def is_digit_def digit_val_def
        digits_value_def Let_def)
  have v: "propOf alice ''type'' = JStr ''character''" "propOf alice ''id'' = JNum 1"
    "propOf bob ''type'' = JStr ''character''" "propOf bob ''id'' = JNum 2"
    "propOf alices_group ''type'' = JStr ''group''" "propOf alices_group ''id'' = JStr ''g1''"
    "propOf sample_deck ''type'' = JStr ''deck''"
    by (simp_all add: alice_def bob_def alices_group_def sample_deck_def propOf_def)
  have r: "list_all (\<lambda>e. \<not> nullish e) [alice, bob, alices_group, sample_deck]"
    by (simp add: alice_def bob_def alices_group_def sample_deck_def nullish_def)
  show ?thesis
    using searchFilter_fuzzy[of _ "''Al''" fuzzy_env "[alice, bob, alices_group, sample_deck]"] r
    by (simp add: filterData_at_setFilterData FILTER_TYPES_defs fuzzy_env_def p v)
qed

section \<open>Filtering twice\<close>

lemma searchFilter_stable:
  "searchFilter ev h xs = Inr ys \<Longrightarrow> set zs \<subseteq> set ys \<Longrightarrow> searchFilter ev h zs = Inr zs"
  by (auto simp: searchFilter_def thenE_def Let_def split: if_splits sum.splits
      intro: js_filter_stable)

lemma searchFilter_subset: "searchFilter ev h xs = Inr ys \<Longrightarrow> set ys \<subseteq> set xs"
  by (auto simp: searchFilter_def thenE_def Let_def split: if_splits sum.splits
      dest: js_filter_subset)

lemma groupFilter_stable:
  "groupFilter h xs = Inr ys \<Longrightarrow> set zs \<subseteq> set ys \<Longrightarrow> groupFilter h zs = Inr zs"
  by (auto simp: groupFilter_def split: if_splits intro: js_filter_stable)

lemma groupFilter_subset: "groupFilter h xs = Inr ys \<Longrightarrow> set ys \<subseteq> set xs"
  by (auto simp: groupFilter_def split: if_splits dest: js_filter_subset)

lemma favFilter_stable:
  "favFilter h xs = Inr ys \<Longrightarrow> set zs \<subseteq> set ys \<Longrightarrow> favFilter h zs = Inr zs"
  by (auto simp: favFilter_def split: if_splits intro: js_filter_stable)

lemma favFilter_subset: "favFilter h xs = Inr ys \<Longrightarrow> set ys \<subseteq> set xs"
  by (auto simp: favFilter_def split: if_splits dest: js_filter_subset)

lemma tagFilter_stable:
  "tagFilter ev h xs = Inr ys \<Longrightarrow> set zs \<subseteq> set ys \<Longrightarrow> tagFilter ev h zs = Inr zs"
  by (auto simp: tagFilter_def thenE_def Let_def split: if_splits sum.splits
      intro: js_filter_stable)

lemma tagFilter_subset: "tagFilter ev h xs = Inr ys \<Longrightarrow> set ys \<subseteq> set xs"
  by (auto simp: tagFilter_def thenE_def Let_def split: if_splits sum.splits
      dest: js_filter_subset)

lemma getProp_Inr_not_nullish: "getProp v k = Inr x \<Longrightarrow> \<not> nullish v"
  by (cases v) (simp_all add: nullish_def)

lemma wiSearchFilter_subset: "wiSearchFilter ev h xs = Inr ys \<Longrightarrow> set ys \<subseteq> set xs"
  by (auto simp: wiSearchFilter_def Let_def split: if_splits dest: js_filter_subset)

lemma wiSearchFilter_stable:
  assumes "\<not> truthy (filterData_at h FILTER_TYPES_WORLD_INFO_SEARCH) \<or>
           wi_stable_on ev (filterData_at h FILTER_TYPES_WORLD_INFO_SEARCH) L"
    and "set xs \<subseteq> set L"
    and "wiSearchFilter ev h xs = Inr ys" and "set zs \<subseteq> set ys"
  shows "wiSearchFilter ev h zs = Inr zs"
proof (cases "truthy (filterData_at h FILTER_TYPES_WORLD_INFO_SEARCH)")
  case False
  then show ?thesis by (simp add: wiSearchFilter_def)
next
  case True
  let ?needle = "filterData_at h FILTER_TYPES_WORLD_INFO_SEARCH"
  let ?p = "\<lambda>data entity. thenE (getProp entity ''uid'') (\<lambda>u.
               Inr (includes_arr (fuzzySearchWorldInfo ev data ?needle) u))"
  have st: "wi_stable_on ev ?needle L" using assms(1) True by simp
  have run: "js_filter (?p xs) xs = Inr ys"
    using assms(3) True by (simp add: wiSearchFilter_def Let_def)
  have sub: "set zs \<subseteq> set xs"
    using js_filter_subset[OF run] assms(4) by blast
  have "js_filter (?p zs) zs = Inr zs"
  proof (rule js_filter_keep_all)
    fix z assume z: "z \<in> set zs"
    then have "z \<in> set ys" using assms(4) by blast
    then have kept: "?p xs z = Inr True"
      using js_filter_Inr_eq[OF run] by simp
    then have nn: "\<not> nullish z"
      by (auto simp: thenE_def split: sum.splits dest: getProp_Inr_not_nullish)
    from kept have "propOf z ''uid'' \<in> set (fuzzySearchWorldInfo ev xs ?needle)"
      by (simp add: getProp_propOf[OF nn] thenE_Inr includes_arr_def)
    with st sub assms(2) z
    have "propOf z ''uid'' \<in> set (fuzzySearchWorldInfo ev zs ?needle)"
      unfolding wi_stable_on_def by blast
    then show "?p zs z = Inr True"
      by (simp add: getProp_propOf[OF nn] thenE_Inr includes_arr_def)
  qed
  then show ?thesis
    using True by (simp add: wiSearchFilter_def Let_def)
qed

lemma reduce_decks_Inr:
  "js_reduce (\<lambda>a b. thenE (getProp b ''item'') (\<lambda>i.
                thenE (getProp i ''characters'') (\<lambda>c. Inr (js_concat a c)))) a ds = Inr m
   \<Longrightarrow> d \<in> set ds \<Longrightarrow> \<not> nullish d \<and> \<not> nullish (propOf d ''item'')"
proof (induction ds arbitrary: a)
  case Nil
  then show ?case by simp
next
  case (Cons b ds)
  from Cons.prems(1) obtain i c where
    i: "getProp b ''item'' = Inr i" and c: "getProp i ''characters'' = Inr c"
    and rest: "js_reduce (\<lambda>a b. thenE (getProp b ''item'') (\<lambda>i.
                thenE (getProp i ''characters'') (\<lambda>c. Inr (js_concat a c)))) (js_concat a c) ds
               = Inr m"
    by (auto simp: thenE_def split: sum.splits)
  have b: "\<not> nullish b"
    using i getProp_Inl_iff[of b "''item''" TypeError] by auto
  have "i = propOf b ''item''"
    using i by (rule getProp_Inr_propOf)
  moreover have "\<not> nullish i"
    using c getProp_Inl_iff[of i "''characters''" TypeError] by auto
  ultimately show ?case
    using Cons.IH[OF rest] Cons.prems(2) b by auto
qed

lemma hideCharactersAlreadyInDeck_Inr_ready:
  assumes "hideCharactersAlreadyInDeck xs = Inr ys"
  shows "deck_ready xs"
proof -
  let ?p1 = "\<lambda>item. thenE (getProp item ''type'') (\<lambda>t. Inr (JStr ''deck'' = t))"
  from assms obtain decks members where
    d: "js_filter ?p1 xs = Inr decks"
    and r: "js_reduce (\<lambda>a b. thenE (getProp b ''item'') (\<lambda>i.
                thenE (getProp i ''characters'') (\<lambda>c. Inr (js_concat a c)))) [] decks
            = Inr members"
    unfolding hideCharactersAlreadyInDeck_def
    by (auto simp: thenE_def split: sum.splits)
  have nn: "\<not> nullish x" if "x \<in> set xs" for x
  proof -
    from js_filter_Inr_elems[OF d that] obtain b where "?p1 x = Inr b" by blast
    then show ?thesis
      by (auto simp: thenE_def split: sum.splits dest: getProp_Inr_not_nullish)
  qed
  have decks: "decks = filter is_deck xs"
  proof -
    have "js_filter ?p1 xs = Inr (filter is_deck xs)"
      by (rule js_filter_pure) (auto simp: getProp_propOf nn thenE_Inr is_deck_def)
    with d show ?thesis by simp
  qed
  have "\<not> nullish (propOf x ''item'')" if "x \<in> set xs" "is_deck x" for x
    using reduce_decks_Inr[OF r, of x] that decks by simp
  with nn show ?thesis
    by (auto simp: deck_ready_def list_all_iff)
qed

lemma hideCharactersAlreadyInDeck_total:
  "hideCharactersAlreadyInDeck data =
     (if deck_ready data
      then Inr (filter (\<lambda>e. JStr (ToString (propOf e ''id'')) \<notin> set (deck_members data)) data)
      else Inl TypeError)"
proof (cases "deck_ready data")
  case True
  then show ?thesis by (simp add: hideCharactersAlreadyInDeck_pure)
next
  case False
  then have "\<And>ys. hideCharactersAlreadyInDeck data \<noteq> Inr ys"
    using hideCharactersAlreadyInDeck_Inr_ready by blast
  then have "hideCharactersAlreadyInDeck data = Inl TypeError"
    by (cases "hideCharactersAlreadyInDeck data") (auto intro: error.exhaust)
  with False show ?thesis by simp
qed

lemma deck_members_mono: "set zs \<subseteq> set xs \<Longrightarrow> set (deck_members zs) \<subseteq> set (deck_members xs)"
  by (auto simp: deck_members_def)

lemma deck_ready_mono: "set zs \<subseteq> set xs \<Longrightarrow> deck_ready xs \<Longrightarrow> deck_ready zs"
  by (auto simp: deck_ready_def list_all_iff)

lemma hideCharactersAlreadyInDeck_subset:
  "hideCharactersAlreadyInDeck xs = Inr ys \<Longrightarrow> set ys \<subseteq> set xs"
  by (auto simp: hideCharactersAlreadyInDeck_total split: if_splits)

lemma hideCharactersAlreadyInDeck_stable:
  assumes "hideCharactersAlreadyInDeck xs = Inr ys" and "set zs \<subseteq> set ys"
  shows "hideCharactersAlreadyInDeck zs = Inr zs"
proof -
  have rx: "deck_ready xs"
    and ys: "ys = filter (\<lambda>e. JStr (ToString (propOf e ''id'')) \<notin> set (deck_members xs)) xs"
    using assms(1) by (auto simp: hideCharactersAlreadyInDeck_total split: if_splits)
  have sub: "set zs \<subseteq> set xs" using assms(2) ys by auto
  have rz: "deck_ready zs" using deck_ready_mono[OF sub rx] .
  have "JStr (ToString (propOf z ''id'')) \<notin> set (deck_members zs)" if "z \<in> set zs" for z
  proof -
    from that assms(2) have "z \<in> set ys" by blast
    then have "JStr (ToString (propOf z ''id'')) \<notin> set (deck_members xs)"
      using ys by simp
    then show ?thesis using deck_members_mono[OF sub] by blast
  qed
  then have "filter (\<lambda>e. JStr (ToString (propOf e ''id'')) \<notin> set (deck_members zs)) zs = zs"
    by (simp add: filter_id_conv)
  then show ?thesis
    using rz by (simp add: hideCharactersAlreadyInDeck_total)
qed

lemma run_filterFn_subset:
  "run_filterFn ev h fn xs = Inr ys \<Longrightarrow> set ys \<subseteq> set xs"
  by (cases fn)
     (simp_all add: searchFilter_subset groupFilter_subset favFilter_subset tagFilter_subset
        wiSearchFilter_subset hideCharactersAlreadyInDeck_subset)

lemma run_filterFn_stable:
  assumes "\<not> truthy (filterData_at h FILTER_TYPES_WORLD_INFO_SEARCH) \<or>
           wi_stable_on ev (filterData_at h FILTER_TYPES_WORLD_INFO_SEARCH) L"
    and "set xs \<subseteq> set L"
    and "run_filterFn ev h fn xs = Inr ys" and "set zs \<subseteq> set ys"
  shows "run_filterFn ev h fn zs = Inr zs"
  using assms
  by (cases fn)
     (simp_all add: searchFilter_stable groupFilter_stable favFilter_stable tagFilter_stable
        wiSearchFilter_stable hideCharactersAlreadyInDeck_stable)

lemma pipeline_subset:
  "js_reduce (\<lambda>data fn. run_filterFn ev h fn data) xs fns = Inr ys \<Longrightarrow> set ys \<subseteq> set xs"
proof (induction fns arbitrary: xs)
  case Nil
  then show ?case by simp
next
  case (Cons fn fns)
  from Cons.prems obtain x1 where
    1: "run_filterFn ev h fn xs = Inr x1"
    and 2: "js_reduce (\<lambda>data fn. run_filterFn ev h fn data) x1 fns = Inr ys"
    by (auto simp: thenE_def split: sum.splits)
  from Cons.IH[OF 2] run_filterFn_subset[OF 1] show ?case by blast
qed

lemma pipeline_stable:
  assumes "\<not> truthy (filterData_at h FILTER_TYPES_WORLD_INFO_SEARCH) \<or>
           wi_stable_on ev (filterData_at h FILTER_TYPES_WORLD_INFO_SEARCH) L"
  shows "set xs \<subseteq> set L \<Longrightarrow>
         js_reduce (\<lambda>data fn. run_filterFn ev h fn data) xs fns = Inr ys \<Longrightarrow>
         set zs \<subseteq> set ys \<Longrightarrow>
         js_reduce (\<lambda>data fn. run_filterFn ev h fn data) zs fns = Inr zs"
proof (induction fns arbitrary: xs)
  case Nil
  then show ?case by simp
next
  case (Cons fn fns)
  from Cons.prems(2) obtain x1 where
    1: "run_filterFn ev h fn xs = Inr x1"
    and 2: "js_reduce (\<lambda>data fn. run_filterFn ev h fn data) x1 fns = Inr ys"
    by (auto simp: thenE_def split: sum.splits)
  have x1: "set x1 \<subseteq> set L"
    using run_filterFn_subset[OF 1] Cons.prems(1) by blast
  have "set zs \<subseteq> set x1"
    using pipeline_subset[OF 2] Cons.prems(3) by blast
  then have "run_filterFn ev h fn zs = Inr zs"
    by (rule run_filterFn_stable[OF assms Cons.prems(1) 1])
  then show ?case
    using Cons.IH[OF x1 2 Cons.prems(3)] by (simp add: thenE_Inr)
qed

lemma reports_matching_uids_stable:
  assumes "reports_matching_uids ev m" and "matched_alike (m needle) L"
  shows "wi_stable_on ev needle L"
  unfolding wi_stable_on_def
proof (intro allI impI)
  fix xs zs z
  assume a: "set zs \<subseteq> set xs \<and> set xs \<subseteq> set L \<and> z \<in> set zs \<and>
             propOf z ''uid'' \<in> set (fuzzySearchWorldInfo ev xs needle)"
  have eq: "set (fuzzySearchWorldInfo ev ys needle)
            = (\<lambda>e. propOf e ''uid'') ` {e \<in> set ys. m needle e}" for ys
    using assms(1) unfolding reports_matching_uids_def by blast
  from a have "propOf z ''uid'' \<in> (\<lambda>e. propOf e ''uid'') ` {e \<in> set xs. m needle e}"
    using eq[of xs] by blast
  then obtain e where e: "e \<in> set xs" "m needle e" "propOf z ''uid'' = propOf e ''uid''"
    by blast
  have "e \<in> set L" "z \<in> set L"
    using a e(1) by blast+
  then have "m needle z = m needle e"
    using assms(2) e(3) unfolding matched_alike_def by blast
  then have "z \<in> {e \<in> set zs. m needle e}"
    using a e(2) by blast
  then have "propOf z ''uid'' \<in> (\<lambda>e. propOf e ''uid'') ` {e \<in> set zs. m needle e}"
    by (rule imageI)
  then show "propOf z ''uid'' \<in> set (fuzzySearchWorldInfo ev zs needle)"
    using eq[of zs] by blast
qed

lemma distinct_uids_matched_alike:
  "inj_on (\<lambda>e. propOf e ''uid'') (set L) \<Longrightarrow> matched_alike t L"
  unfolding matched_alike_def inj_on_def by blast

text \<open>Claim C6, as amended. For a fixed helper state and fixed collaborators, filtering
  the result of \<^verbatim>\<open>applyFilters(L)\<close> again returns that same result (and when
  \<^verbatim>\<open>applyFilters(L)\<close> throws, so does the composition) in each of these cases: the
  world-info criterion is empty; or the world-info matcher is stable on the lists made of
  entries of \<open>L\<close> (\<open>wi_stable_on\<close>); or, as a case of the latter, the matcher tests each
  entry on its own and reports the uids of those that pass, and entries of \<open>L\<close> with the
  same uid fare alike. This holds for every list of registered stages, in any order.\<close>

theorem applyFilters_idempotent:
  assumes "\<not> truthy (filterData_at h FILTER_TYPES_WORLD_INFO_SEARCH) \<or>
           wi_stable_on ev (filterData_at h FILTER_TYPES_WORLD_INFO_SEARCH) L \<or>
           (reports_matching_uids ev m \<and>
            matched_alike (m (filterData_at h FILTER_TYPES_WORLD_INFO_SEARCH)) L)"
  shows "thenE (applyFilters ev h L) (applyFilters ev h) = applyFilters ev h L"
proof (cases "applyFilters ev h L")
  case (Inl e)
  then show ?thesis by (simp add: thenE_Inl)
next
  case (Inr ys)
  have st: "\<not> truthy (filterData_at h FILTER_TYPES_WORLD_INFO_SEARCH) \<or>
            wi_stable_on ev (filterData_at h FILTER_TYPES_WORLD_INFO_SEARCH) L"
    using assms reports_matching_uids_stable by blast
  from Inr have "applyFilters ev h ys = Inr ys"
    unfolding applyFilters_def using pipeline_stable[OF st, of L _ ys ys] by simp
  with Inr show ?thesis by (simp add: thenE_Inr)
qed

lemma applyFilters_wi_only:
  "applyFilters ev
     (setFilterData new_FilterHelper FILTER_TYPES_WORLD_INFO_SEARCH (JStr ''x'') False) L =
   thenE (js_filter (\<lambda>entity. thenE (getProp entity ''uid'') (\<lambda>u.
            Inr (includes_arr (fuzzySearchWorldInfo ev L (JStr ''x'')) u))) L)
     hideCharactersAlreadyInDeck"
proof -
  let ?h = "setFilterData new_FilterHelper FILTER_TYPES_WORLD_INFO_SEARCH (JStr ''x'') False"
  have c: "filterData_at ?h FILTER_TYPES_SEARCH = JStr []"
    "filterData_at ?h FILTER_TYPES_GROUP = JBool False"
    "filterData_at ?h FILTER_TYPES_FAV = JBool False"
    "filterData_at ?h FILTER_TYPES_TAG = JObj [(''excluded'', JArr []), (''selected'', JArr [])]"
    "filterData_at ?h FILTER_TYPES_WORLD_INFO_SEARCH = JStr ''x''"
    by (simp_all add: filterData_at_setFilterData filterData_at_setFilterData_other
        FILTER_TYPES_defs new_filterData_at)
  have s: "searchFilter ev ?h L = Inr L"
    by (simp add: searchFilter_def c)
  have g: "groupFilter ?h L = Inr L"
    by (simp add: groupFilter_def c)
  have f: "favFilter ?h L = Inr L"
    by (simp add: favFilter_def c)
  have t: "tagFilter ev ?h L = Inr L"
    by (simp add: tagFilter_def c thenE_def)
  have w: "wiSearchFilter ev ?h L =
           js_filter (\<lambda>entity. thenE (getProp entity ''uid'') (\<lambda>u.
             Inr (includes_arr (fuzzySearchWorldInfo ev L (JStr ''x'')) u))) L"
    by (simp add: wiSearchFilter_def c)
  show ?thesis
    by (simp add: applyFilters_new_stages[OF setFilterData_filterFunctions] s g f t w thenE_Inr)
qed

theorem applyFilters_idempotent_witness:
  "truthy (JStr ''x'') \<and>
   reports_matching_uids key_env key_matches \<and>
   matched_alike (key_matches (JStr ''x'')) [keyed_entry_x, keyed_entry_z] \<and>
   applyFilters key_env
     (setFilterData new_FilterHelper FILTER_TYPES_WORLD_INFO_SEARCH (JStr ''x'') False)
     [keyed_entry_x, keyed_entry_z] = Inr [keyed_entry_x] \<and>
   applyFilters key_env
     (setFilterData new_FilterHelper FILTER_TYPES_WORLD_INFO_SEARCH (JStr ''x'') False)
     [keyed_entry_x] = Inr [keyed_entry_x]"
proof -
  let ?h = "setFilterData new_FilterHelper FILTER_TYPES_WORLD_INFO_SEARCH (JStr ''x'') False"
  have n: "filterData_at ?h FILTER_TYPES_WORLD_INFO_SEARCH = JStr ''x''"
    by (simp add: filterData_at_setFilterData FILTER_TYPES_defs)
  have r: "reports_matching_uids key_env key_matches"
    by (simp add: reports_matching_uids_def key_env_def)
  have a: "matched_alike (key_matches (JStr ''x'')) [keyed_entry_x, keyed_entry_z]"
    by (simp add: matched_alike_def key_matches_def keyed_entry_x_def keyed_entry_z_def
        propOf_def)
  have 1: "applyFilters key_env ?h [keyed_entry_x, keyed_entry_z] = Inr [keyed_entry_x]"
    by (simp add: applyFilters_wi_only key_env_def key_matches_def keyed_entry_x_def
        keyed_entry_z_def propOf_def includes_arr_def thenE_def hideCharactersAlreadyInDeck_def
        uniq_def)
  have "thenE (applyFilters key_env ?h [keyed_entry_x, keyed_entry_z]) (applyFilters key_env ?h)
        = applyFilters key_env ?h [keyed_entry_x, keyed_entry_z]"
    using applyFilters_idempotent[of ?h key_env "[keyed_entry_x, keyed_entry_z]" key_matches]
      r a
    by (simp only: n) blast
  then have 2: "applyFilters key_env ?h [keyed_entry_x] = Inr [keyed_entry_x]"
    by (simp only: 1 thenE_Inr)
  show ?thesis
    using r a 1 2 by simp
qed

text \<open>Claim C6 as stated fails: with a matcher that depends on the list it is given,
  the second pass drops the entry that the first pass kept.\<close>

theorem applyFilters_idempotent_counterexample:
  "applyFilters crowd_env
     (setFilterData new_FilterHelper FILTER_TYPES_WORLD_INFO_SEARCH (JStr ''x'') False)
     [wi_entry_1, wi_entry_2] = Inr [wi_entry_1] \<and>
   applyFilters crowd_env
     (setFilterData new_FilterHelper FILTER_TYPES_WORLD_INFO_SEARCH (JStr ''x'') False)
     [wi_entry_1] = Inr [] \<and>
   thenE (applyFilters crowd_env
            (setFilterData new_FilterHelper FILTER_TYPES_WORLD_INFO_SEARCH (JStr ''x'') False)
            [wi_entry_1, wi_entry_2])
         (applyFilters crowd_env
            (setFilterData new_FilterHelper FILTER_TYPES_WORLD_INFO_SEARCH (JStr ''x'') False))
     \<noteq> applyFilters crowd_env
         (setFilterData new_FilterHelper FILTER_TYPES_WORLD_INFO_SEARCH (JStr ''x'') False)
         [wi_entry_1, wi_entry_2]"
proof -
  let ?h = "setFilterData new_FilterHelper FILTER_TYPES_WORLD_INFO_SEARCH (JStr ''x'') False"
  have 1: "applyFilters crowd_env ?h [wi_entry_1, wi_entry_2] = Inr [wi_entry_1]"
    by (simp add: applyFilters_wi_only crowd_env_def wi_entry_1_def wi_entry_2_def
        includes_arr_def thenE_def hideCharactersAlreadyInDeck_def uniq_def)
  have 2: "applyFilters crowd_env ?h [wi_entry_1] = Inr []"
    by (simp add: applyFilters_wi_only crowd_env_def wi_entry_1_def
        includes_arr_def thenE_def hideCharactersAlreadyInDeck_def uniq_def)
  show ?thesis
    by (simp add: 1 2 thenE_Inr)
qed

text \<open>Even a matcher that tests each entry on its own is not enough when entries share
  a uid. Here no entry has a uid: the matcher reports \<^verbatim>\<open>undefined\<close> for the character
  with key \<^verbatim>\<open>x\<close>, so the first pass keeps all three entries and the deck then hides
  that character; on the second pass nothing is reported and nothing is kept.\<close>

lemma applyFilters_shared_uid_not_idempotent:
  "reports_matching_uids key_env key_matches \<and>
   applyFilters key_env
     (setFilterData new_FilterHelper FILTER_TYPES_WORLD_INFO_SEARCH (JStr ''x'') False)
     [keyed_character_x, keyed_character_z, sample_deck]
     = Inr [keyed_character_z, sample_deck] \<and>
   applyFilters key_env
     (setFilterData new_FilterHelper FILTER_TYPES_WORLD_INFO_SEARCH (JStr ''x'') False)
     [keyed_character_z, sample_deck] = Inr []"
proof -
  let ?h = "setFilterData new_FilterHelper FILTER_TYPES_WORLD_INFO_SEARCH (JStr ''x'') False"
  have r: "reports_matching_uids key_env key_matches"
    by (simp add: reports_matching_uids_def key_env_def)
  have 1: "applyFilters key_env ?h [keyed_character_x, keyed_character_z, sample_deck]
           = Inr [keyed_character_z, sample_deck]"
    by (simp add: applyFilters_wi_only key_env_def key_matches_def keyed_character_x_def
        keyed_character_z_def sample_deck_def propOf_def includes_arr_def thenE_def
        hideCharactersAlreadyInDeck_def js_concat_def uniq_def show_int_1 show_int_2)
  have 2: "applyFilters key_env ?h [keyed_character_z, sample_deck] = Inr []"
    by (simp add: applyFilters_wi_only key_env_def key_matches_def
        keyed_character_z_def sample_deck_def propOf_def includes_arr_def thenE_def
        hideCharactersAlreadyInDeck_def js_concat_def uniq_def show_int_1 show_int_2)
  show ?thesis
    using r 1 2 by simp
qed

end
